theory Spec2Isabelle
  imports Complex_Main
begin

section \<open>Rate limiter (lib/server/rate-limit.ts)\<close>

text \<open>
  JavaScript numbers that hold millisecond timestamps and request counters are modelled
  as mathematical integers. The value read by \<^verbatim>\<open>Date.now()\<close> is an explicit
  argument \<open>now\<close>, and the module-level \<^verbatim>\<open>rateLimitMap\<close> is passed in and
  returned updated.
\<close>

definition DEFAULT_MAX_REQUESTS :: int where
  "DEFAULT_MAX_REQUESTS = 5"

definition DEFAULT_WINDOW_MS :: int where
  "DEFAULT_WINDOW_MS = 60 * 1000"

record RateLimitRecord =
  count :: int
  resetTime :: int

type_synonym rateLimitMap = "string \<rightharpoonup> RateLimitRecord"

record rl_options =
  maxRequests :: "int option"
  windowMs :: "int option"

text \<open>\<^verbatim>\<open>options?.maxRequests ?? DEFAULT_MAX_REQUESTS\<close>: the default is taken when the
  options object or the field is missing.\<close>

definition option_maxRequests :: "rl_options option \<Rightarrow> int" where
  "option_maxRequests options =
     (case options of
        None \<Rightarrow> DEFAULT_MAX_REQUESTS
      | Some opt \<Rightarrow> (case maxRequests opt of None \<Rightarrow> DEFAULT_MAX_REQUESTS | Some n \<Rightarrow> n))"

definition option_windowMs :: "rl_options option \<Rightarrow> int" where
  "option_windowMs options =
     (case options of
        None \<Rightarrow> DEFAULT_WINDOW_MS
      | Some opt \<Rightarrow> (case windowMs opt of None \<Rightarrow> DEFAULT_WINDOW_MS | Some w \<Rightarrow> w))"

definition isRateLimited ::
  "int \<Rightarrow> string \<Rightarrow> rl_options option \<Rightarrow> rateLimitMap \<Rightarrow> bool \<times> rateLimitMap" where
  "isRateLimited now key options m =
     (let maxRequests' = option_maxRequests options;
          windowMs' = option_windowMs options
      in case m key of
           None \<Rightarrow> (False, m(key \<mapsto> \<lparr>count = 1, resetTime = now + windowMs'\<rparr>))
         | Some rec \<Rightarrow>
             if now > resetTime rec
             then (False, m(key \<mapsto> \<lparr>count = 1, resetTime = now + windowMs'\<rparr>))
             else
               (let rec' = rec\<lparr>count := count rec + 1\<rparr>
                in (if count rec' > maxRequests' then True else False, m(key \<mapsto> rec'))))"

text \<open>The sweep visits every entry and deletes the expired ones; on the map this is a
  pointwise filter. It reads the clock itself.\<close>

definition cleanupRateLimitMap :: "int \<Rightarrow> rateLimitMap \<Rightarrow> rateLimitMap" where
  "cleanupRateLimitMap now m =
     (\<lambda>key. case m key of
              None \<Rightarrow> None
            | Some rec \<Rightarrow> if now > resetTime rec then None else Some rec)"


text \<open>
  The process as the rate limiter sees it: calls of \<open>isRateLimited\<close> and runs of the
  sweep timer, each at the clock value it reads. \<open>run_events\<close> threads the map through
  the events and collects the booleans the calls return.
\<close>

datatype rl_event = Check string "rl_options option" | Sweep

fun run_events :: "(int \<times> rl_event) list \<Rightarrow> rateLimitMap \<Rightarrow> bool list" where
  "run_events [] m = []"
| "run_events ((now, Check key options) # evs) m =
     (let (limited, m') = isRateLimited now key options m in limited # run_events evs m')"
| "run_events ((now, Sweep) # evs) m = run_events evs (cleanupRateLimitMap now m)"

definition is_Check :: "int \<times> rl_event \<Rightarrow> bool" where
  "is_Check ev = (case snd ev of Check key options \<Rightarrow> True | Sweep \<Rightarrow> False)"

text \<open>Two maps agree up to records that a sweep has dropped and that every clock value
  from \<open>t\<close> on finds expired.\<close>

definition agree_up_to_expired :: "int \<Rightarrow> rateLimitMap \<Rightarrow> rateLimitMap \<Rightarrow> bool" where
  "agree_up_to_expired t m m' =
     (\<forall>key. m' key = m key \<or> (m' key = None \<and> (\<exists>rec. m key = Some rec \<and> resetTime rec < t)))"


section \<open>Request bodies\<close>

text \<open>The value \<^verbatim>\<open>request.json()\<close> resolves to. An object is the list of its own
  properties, whose keys are distinct. A JavaScript string is a sequence of code units,
  each a HOL character here, and \<open>length\<close> counts them as \<^verbatim>\<open>.length\<close> does.\<close>

datatype json =
    JNull
  | JBool bool
  | JNumber real
  | JString string
  | JArray "json list"
  | JObject "(string \<times> json) list"


section \<open>Client identity (lib/server/get-client-ip.ts)\<close>

text \<open>\<^verbatim>\<open>headers.get(name)\<close> is \<open>None\<close> for a header that is absent.\<close>

type_synonym headers = "string \<rightharpoonup> string"

text \<open>The code units below 256 that \<^verbatim>\<open>String.prototype.trim\<close> removes: TAB, LF, VT, FF,
  CR, SPACE and NO-BREAK SPACE.\<close>

definition js_whitespace :: "char \<Rightarrow> bool" where
  "js_whitespace c = (c \<in> {CHR 0x09, CHR 0x0A, CHR 0x0B, CHR 0x0C, CHR 0x0D, CHR 0x20, CHR 0xA0})"

definition trim :: "string \<Rightarrow> string" where
  "trim s = rev (dropWhile js_whitespace (rev (dropWhile js_whitespace s)))"

text \<open>\<^verbatim>\<open>s.split(',')[0]\<close>: the part of \<open>s\<close> before its first comma.\<close>

definition split_comma_first :: "string \<Rightarrow> string" where
  "split_comma_first s = takeWhile (\<lambda>c. c \<noteq> CHR '','') s"

definition getClientIp :: "headers \<Rightarrow> string" where
  "getClientIp hdrs =
     (case hdrs ''x-forwarded-for'' of
        Some (c # cs) \<Rightarrow> trim (split_comma_first (c # cs))
      | _ \<Rightarrow>
          (case hdrs ''x-real-ip'' of
             Some (c # cs) \<Rightarrow> c # cs
           | _ \<Rightarrow> ''unknown''))"


section \<open>Validation library\<close>

text \<open>
  The schema is written with the zod library, which is a dependency and not part of the
  sources. The functions of this section give the library's behaviour on the
  constructions the schema uses: a schema maps the value of a property (\<open>None\<close> when the
  property is missing) to the parsed value or to a list of issues; an issue carries a
  code, the path of the offending property and a message. Messages the schema does not
  supply are the library's own text, kept abstract as \<open>Default_message\<close>.
\<close>

datatype issue_code = invalid_type | too_small | too_big | invalid_format | invalid_value

datatype zod_message = Message string | Default_message

record issue =
  issue_code :: issue_code
  issue_path :: "string list"
  issue_message :: zod_message

type_synonym 'a zod_schema = "json option \<Rightarrow> issue list + 'a"

type_synonym zod_check = "string \<Rightarrow> issue list"

text \<open>Modelled from the spec: \<^verbatim>\<open>.min(n, msg)\<close> of the validation library, which is not
  in the sources: "text, n-m characters" fails below \<open>n\<close> code units.\<close>

definition z_min :: "nat \<Rightarrow> string \<Rightarrow> zod_check" where
  "z_min n msg s =
     (if length s < n
      then [\<lparr>issue_code = too_small, issue_path = [], issue_message = Message msg\<rparr>]
      else [])"

text \<open>Modelled from the spec: \<^verbatim>\<open>.max(n, msg)\<close> of the validation library, which is not
  in the sources: it fails above \<open>n\<close> code units.\<close>

definition z_max :: "nat \<Rightarrow> string \<Rightarrow> zod_check" where
  "z_max n msg s =
     (if length s > n
      then [\<lparr>issue_code = too_big, issue_path = [], issue_message = Message msg\<rparr>]
      else [])"

text \<open>What the checks of a chain report on a value that is not a string. The library
  decides this for itself (it runs a length check on whatever has a length); it is
  taken as a parameter.\<close>

type_synonym checks_on_other = "zod_check list \<Rightarrow> json option \<Rightarrow> issue list"

text \<open>Modelled from the spec: \<^verbatim>\<open>z.string()\<close> with its chain of checks. On a string
  every check runs and all their issues are reported. A value that is not a string is a
  type issue, followed by what the parameter \<open>other\<close> adds for the checks.\<close>

definition z_string :: "checks_on_other \<Rightarrow> zod_check list \<Rightarrow> string zod_schema" where
  "z_string other checks v =
     (case v of
        Some (JString s) \<Rightarrow>
          (case concat (map (\<lambda>check. check s) checks) of
             [] \<Rightarrow> Inr s
           | i # is \<Rightarrow> Inl (i # is))
      | _ \<Rightarrow>
          Inl (\<lparr>issue_code = invalid_type, issue_path = [], issue_message = Default_message\<rparr>
               # other checks v))"

text \<open>Modelled from the spec: \<^verbatim>\<open>z.email(msg)\<close> with its chain of checks: "must match a
  valid email address syntax". The syntax test itself is the library's regular
  expression, taken as the parameter \<open>is_email\<close>; it runs before the chained checks and
  \<open>msg\<close> is the message of the schema's own issues.\<close>

definition z_email ::
  "(string \<Rightarrow> bool) \<Rightarrow> checks_on_other \<Rightarrow> string \<Rightarrow> zod_check list \<Rightarrow> string zod_schema" where
  "z_email is_email other msg checks v =
     (case v of
        Some (JString s) \<Rightarrow>
          (case (if is_email s then []
                 else [\<lparr>issue_code = invalid_format, issue_path = [], issue_message = Message msg\<rparr>])
                @ concat (map (\<lambda>check. check s) checks) of
             [] \<Rightarrow> Inr s
           | i # is \<Rightarrow> Inl (i # is))
      | _ \<Rightarrow>
          Inl (\<lparr>issue_code = invalid_type, issue_path = [], issue_message = Message msg\<rparr>
               # other checks v))"

text \<open>Modelled from the spec: \<^verbatim>\<open>z.enum(values)\<close>: "one of a fixed closed set".\<close>

definition z_enum :: "string list \<Rightarrow> string zod_schema" where
  "z_enum values v =
     (case v of
        Some (JString s) \<Rightarrow>
          if s \<in> set values then Inr s
          else Inl [\<lparr>issue_code = invalid_value, issue_path = [], issue_message = Default_message\<rparr>]
      | _ \<Rightarrow> Inl [\<lparr>issue_code = invalid_value, issue_path = [], issue_message = Default_message\<rparr>])"

text \<open>Modelled from the spec: \<^verbatim>\<open>.optional()\<close>: a missing property is accepted, any
  other value goes to the inner schema.\<close>

definition z_optional :: "'a zod_schema \<Rightarrow> 'a option zod_schema" where
  "z_optional inner v =
     (case v of
        None \<Rightarrow> Inr None
      | Some x \<Rightarrow> (case inner (Some x) of Inl is \<Rightarrow> Inl is | Inr a \<Rightarrow> Inr (Some a)))"

text \<open>The issues of the property \<open>key\<close> of an object, their paths extended by the key.\<close>

definition at_key :: "string \<Rightarrow> issue list + 'a \<Rightarrow> issue list" where
  "at_key key r =
     (case r of
        Inl is \<Rightarrow> map (\<lambda>i. i\<lparr>issue_path := key # issue_path i\<rparr>) is
      | Inr a \<Rightarrow> [])"


section \<open>Contact schema (lib/contact/schema.ts)\<close>

definition projectTypes :: "string list" where
  "projectTypes = [''website'', ''webapp'', ''mobile'', ''ecommerce'', ''other'']"

definition budgetRanges :: "string list" where
  "budgetRanges =
     [''less-than-5k'', ''5k-10k'', ''10k-25k'', ''25k-50k'', ''more-than-50k'', ''not-sure'']"

text \<open>The messages of the schema; the accented letters are written by their code.\<close>

definition msg_name_min :: string where
  "msg_name_min = ''Le nom doit contenir au moins 2 caract'' @ [CHR 0xE8] @ ''res''"

definition msg_name_max :: string where
  "msg_name_max =
     ''Le nom ne peut pas d'' @ [CHR 0xE9] @ ''passer 100 caract'' @ [CHR 0xE8] @ ''res''"

definition msg_email_invalid :: string where
  "msg_email_invalid = ''Veuillez entrer une adresse email valide''"

definition msg_email_max :: string where
  "msg_email_max =
     ''L'' @ [CHR 0x27] @ ''email ne peut pas d'' @ [CHR 0xE9] @ ''passer 255 caract''
       @ [CHR 0xE8] @ ''res''"

definition msg_subject_min :: string where
  "msg_subject_min = ''Le sujet doit contenir au moins 3 caract'' @ [CHR 0xE8] @ ''res''"

definition msg_subject_max :: string where
  "msg_subject_max =
     ''Le sujet ne peut pas d'' @ [CHR 0xE9] @ ''passer 200 caract'' @ [CHR 0xE8] @ ''res''"

definition msg_message_min :: string where
  "msg_message_min = ''Le message doit contenir au moins 20 caract'' @ [CHR 0xE8] @ ''res''"

definition msg_message_max :: string where
  "msg_message_max =
     ''Le message ne peut pas d'' @ [CHR 0xE9] @ ''passer 5000 caract'' @ [CHR 0xE8] @ ''res''"

definition msg_honeypot :: string where
  "msg_honeypot = ''Ce champ doit rester vide''"

text \<open>\<^verbatim>\<open>z.infer<typeof contactSchema>\<close>, the validated data.\<close>

record ContactFormValues =
  cf_name :: string
  cf_email :: string
  cf_subject :: string
  cf_message :: string
  cf_projectType :: "string option"
  cf_budget :: "string option"
  cf_honeypot :: "string option"

text \<open>
  \<^verbatim>\<open>contactSchema.safeParse(body)\<close>. A body that is not an object is one issue with the
  empty path. On an object every property of the shape is parsed, in the order of the
  shape; the parse succeeds when no property has an issue and otherwise fails with the
  issues of all properties.
\<close>

definition contactSchema ::
  "(string \<Rightarrow> bool) \<Rightarrow> checks_on_other \<Rightarrow> json \<Rightarrow> issue list + ContactFormValues" where
  "contactSchema is_email other input =
     (case input of
        JObject props \<Rightarrow>
          (let r_name = z_string other [z_min 2 msg_name_min, z_max 100 msg_name_max]
                 (map_of props ''name'');
               r_email = z_email is_email other msg_email_invalid [z_max 255 msg_email_max]
                 (map_of props ''email'');
               r_subject = z_string other [z_min 3 msg_subject_min, z_max 200 msg_subject_max]
                 (map_of props ''subject'');
               r_message = z_string other [z_min 20 msg_message_min, z_max 5000 msg_message_max]
                 (map_of props ''message'');
               r_projectType = z_optional (z_enum projectTypes) (map_of props ''projectType'');
               r_budget = z_optional (z_enum budgetRanges) (map_of props ''budget'');
               r_honeypot = z_optional (z_string other [z_max 0 msg_honeypot])
                 (map_of props ''honeypot'')
           in case (r_name, r_email, r_subject, r_message, r_projectType, r_budget, r_honeypot) of
                (Inr n, Inr e, Inr s, Inr m, Inr p, Inr b, Inr h) \<Rightarrow>
                  Inr \<lparr>cf_name = n, cf_email = e, cf_subject = s, cf_message = m,
                       cf_projectType = p, cf_budget = b, cf_honeypot = h\<rparr>
              | _ \<Rightarrow>
                  Inl (at_key ''name'' r_name @ at_key ''email'' r_email
                       @ at_key ''subject'' r_subject @ at_key ''message'' r_message
                       @ at_key ''projectType'' r_projectType @ at_key ''budget'' r_budget
                       @ at_key ''honeypot'' r_honeypot))
      | _ \<Rightarrow> Inl [\<lparr>issue_code = invalid_type, issue_path = [], issue_message = Default_message\<rparr>])"


section \<open>Email transport (services/brevo.service.ts, lib/email/brevo.ts)\<close>

text \<open>\<^verbatim>\<open>process.env\<close>: a variable is a string or undefined.\<close>

record env =
  NODE_ENV :: "string option"
  BREVO_API_KEY :: "string option"
  BREVO_SENDER_EMAIL :: "string option"
  BREVO_SENDER_NAME :: "string option"
  BREVO_RECEIVER_EMAIL :: "string option"

text \<open>A string-or-undefined value is truthy when it is a non-empty string.\<close>

definition truthy :: "string option \<Rightarrow> bool" where
  "truthy v = (case v of Some (c # cs) \<Rightarrow> True | _ \<Rightarrow> False)"

text \<open>\<^verbatim>\<open>a || b\<close> on string-or-undefined values.\<close>

definition or_else :: "string option \<Rightarrow> string option \<Rightarrow> string option" where
  "or_else a b = (if truthy a then a else b)"

text \<open>What a call can throw: an \<^verbatim>\<open>Error\<close> built by the sources, with its message, or the
  rejection of a call into the platform or a library.\<close>

datatype external_call = Fetch | Response_json | Render

datatype js_error = Error string | Rejected external_call

record SendContactEmailParams =
  p_name :: string
  p_email :: string
  p_subject :: string
  p_message :: string
  p_projectType :: "string option"
  p_budget :: "string option"

record brevo_contact =
  contact_name :: "string option"
  contact_email :: string

record BrevoEmailRequestBody =
  sender :: brevo_contact
  to :: "brevo_contact list"
  replyTo :: "brevo_contact option"
  subject :: string
  htmlContent :: string
  textContent :: string

text \<open>The body of the provider's answer as the sources read it: \<^verbatim>\<open>BrevoApiError\<close>
  (\<open>message\<close>, \<open>code\<close>) on a failure, \<^verbatim>\<open>BrevoApiResponse\<close> (\<open>messageId\<close>) on a
  success.\<close>

record brevo_json =
  j_message :: "string option"
  j_code :: "string option"
  j_messageId :: "string option"

text \<open>A response of \<^verbatim>\<open>fetch\<close>; \<open>json_body\<close> is \<open>None\<close> when \<^verbatim>\<open>response.json()\<close>
  rejects.\<close>

record http_response =
  ok :: bool
  http_status :: nat
  statusText :: string
  json_body :: "brevo_json option"

datatype fetch_outcome = Fetch_rejected | Fetch_response http_response

text \<open>One outbound call: the URL, the \<open>api-key\<close> header and the body that is sent.\<close>

record fetch_request =
  fetch_url :: string
  fetch_api_key :: string
  fetch_body :: BrevoEmailRequestBody

definition BREVO_API_URL :: string where
  "BREVO_API_URL = ''https://api.brevo.com/v3/smtp/email''"

text \<open>\<^verbatim>\<open>sendBrevoEmail\<close> returns the message identifier of the answer, or the error it
  throws, together with the outbound calls it made.\<close>

definition sendBrevoEmail ::
  "env \<Rightarrow> (fetch_request \<Rightarrow> fetch_outcome) \<Rightarrow> BrevoEmailRequestBody
     \<Rightarrow> (js_error + string option) \<times> fetch_request list" where
  "sendBrevoEmail e fetch requestBody =
     (case BREVO_API_KEY e of
        Some (c # cs) \<Rightarrow>
          (let req = \<lparr>fetch_url = BREVO_API_URL, fetch_api_key = c # cs, fetch_body = requestBody\<rparr>
           in case fetch req of
                Fetch_rejected \<Rightarrow> (Inl (Rejected Fetch), [req])
              | Fetch_response response \<Rightarrow>
                  if \<not> ok response then
                    (let errorData =
                           (case json_body response of
                              None \<Rightarrow> \<lparr>j_message = Some ''Unknown error'', j_code = Some ''UNKNOWN'',
                                        j_messageId = None\<rparr>
                            | Some d \<Rightarrow> d)
                     in (Inl (Error (''Failed to send email: ''
                                 @ (case j_message errorData of
                                      Some (x # xs) \<Rightarrow> x # xs
                                    | _ \<Rightarrow> statusText response))), [req]))
                  else
                    (case json_body response of
                       None \<Rightarrow> (Inl (Rejected Response_json), [req])
                     | Some data \<Rightarrow> (Inr (j_messageId data), [req])))
      | _ \<Rightarrow> (Inl (Error ''BREVO_API_KEY is not defined in environment variables''), []))"

text \<open>\<^verbatim>\<open>generateContactEmailContent\<close> renders the template with a library; it is the
  parameter \<open>render\<close>, which gives the HTML and the plain text or rejects.\<close>

type_synonym renderer = "SendContactEmailParams \<Rightarrow> js_error + string \<times> string"

definition sendContactEmail ::
  "env \<Rightarrow> renderer \<Rightarrow> (fetch_request \<Rightarrow> fetch_outcome) \<Rightarrow> SendContactEmailParams
     \<Rightarrow> (js_error + string) \<times> fetch_request list" where
  "sendContactEmail e render fetch params =
     (if NODE_ENV e \<noteq> Some ''production'' then (Inr ''dev-console'', [])
      else
        (let senderEmail = BREVO_SENDER_EMAIL e;
             senderName = or_else (BREVO_SENDER_NAME e) (Some ''Portfolio Contact'');
             receiverEmail = or_else (BREVO_RECEIVER_EMAIL e) (BREVO_SENDER_EMAIL e)
         in case senderEmail of
              Some (c # cs) \<Rightarrow>
                (case receiverEmail of
                   Some (d # ds) \<Rightarrow>
                     (case render params of
                        Inl err \<Rightarrow> (Inl err, [])
                      | Inr (html, txt) \<Rightarrow>
                          (let requestBody =
                                 \<lparr>sender = \<lparr>contact_name = senderName, contact_email = c # cs\<rparr>,
                                  to = [\<lparr>contact_name = Some ''Portfolio Owner'',
                                         contact_email = d # ds\<rparr>],
                                  replyTo = Some \<lparr>contact_name = Some (p_name params),
                                                  contact_email = p_email params\<rparr>,
                                  subject = ''[Portfolio] '' @ p_subject params,
                                  htmlContent = html,
                                  textContent = txt\<rparr>
                           in case sendBrevoEmail e fetch requestBody of
                                (Inl err, calls) \<Rightarrow> (Inl err, calls)
                              | (Inr messageId, calls) \<Rightarrow>
                                  (Inr (case messageId of
                                          Some (x # xs) \<Rightarrow> x # xs
                                        | _ \<Rightarrow> ''unknown''), calls)))
                 | _ \<Rightarrow>
                     (Inl (Error ''BREVO_RECEIVER_EMAIL is not defined in environment variables''),
                      []))
            | _ \<Rightarrow>
                (Inl (Error ''BREVO_SENDER_EMAIL is not defined in environment variables''), [])))"


section \<open>The endpoint POST /api/contact (app/api/contact/route.ts)\<close>

text \<open>A request: its headers and what \<^verbatim>\<open>request.json()\<close> gives, \<open>None\<close> when the body
  is not well-formed JSON and the call rejects.\<close>

record request =
  req_headers :: headers
  req_body :: "json option"

record error_entry =
  entry_field :: string
  entry_message :: zod_message

text \<open>The JSON bodies the handler answers with: \<open>{success: true, message, messageId?}\<close>
  and \<open>{success: false, error, code, errors?}\<close>.\<close>

datatype response_body =
    Success_body string "string option"
  | Failure_body string string "error_entry list option"

record response =
  status :: nat
  resp_headers :: "(string \<times> string) list"
  resp_body :: response_body

text \<open>\<^verbatim>\<open>NextResponse.json(body)\<close> answers with status 200 and no header of the
  handler's own.\<close>

definition json_response :: "response_body \<Rightarrow> response" where
  "json_response b = \<lparr>status = 200, resp_headers = [], resp_body = b\<rparr>"

text \<open>\<^verbatim>\<open>issue.path.join('.')\<close>\<close>

fun join_dot :: "string list \<Rightarrow> string" where
  "join_dot [] = []"
| "join_dot [x] = x"
| "join_dot (x # y # ys) = x @ ''.'' @ join_dot (y # ys)"

definition msg_rate_limit :: string where
  "msg_rate_limit =
     ''Trop de requ'' @ [CHR 0xEA] @ ''tes. Veuillez r'' @ [CHR 0xE9]
       @ ''essayer dans une minute.''"

definition msg_invalid_data :: string where
  "msg_invalid_data = ''Donn'' @ [CHR 0xE9] @ ''es invalides''"

definition msg_sent :: string where
  "msg_sent = ''Message envoy'' @ [CHR 0xE9] @ '' avec succ'' @ [CHR 0xE8] @ ''s !''"

definition msg_server_error :: string where
  "msg_server_error =
     ''Une erreur est survenue lors de l'' @ [CHR 0x27] @ ''envoi du message.''"

text \<open>What surrounds one run of the handler: the clock, the environment variables, the
  two parameters of the validation library, the template renderer and the provider
  behind \<^verbatim>\<open>fetch\<close>.\<close>

record platform =
  date_now :: int
  process_env :: env
  email_syntax :: "string \<Rightarrow> bool"
  checks_on_other :: checks_on_other
  render_email :: renderer
  fetch_impl :: "fetch_request \<Rightarrow> fetch_outcome"

text \<open>The result of one run: the response, the rate-limit map it leaves, the calls of
  \<^verbatim>\<open>sendContactEmail\<close> it made and the outbound calls these made.\<close>

record post_result =
  post_response :: response
  post_rateLimitMap :: rateLimitMap
  post_sendContactEmail_calls :: "SendContactEmailParams list"
  post_fetch_calls :: "fetch_request list"

text \<open>\<^verbatim>\<open>data.honeypot && data.honeypot.length > 0\<close>\<close>

definition honeypot_filled :: "string option \<Rightarrow> bool" where
  "honeypot_filled honeypot =
     (case honeypot of Some (c # cs) \<Rightarrow> length (c # cs) > 0 | _ \<Rightarrow> False)"

definition POST :: "platform \<Rightarrow> request \<Rightarrow> rateLimitMap \<Rightarrow> post_result" where
  "POST w req m =
     (let clientIp = getClientIp (req_headers req);
          (limited, m') = isRateLimited (date_now w) clientIp None m
      in if limited then
           \<lparr>post_response =
              \<lparr>status = 429, resp_headers = [(''Retry-After'', ''60'')],
               resp_body = Failure_body msg_rate_limit ''RATE_LIMIT_EXCEEDED'' None\<rparr>,
            post_rateLimitMap = m', post_sendContactEmail_calls = [], post_fetch_calls = []\<rparr>
         else
           (case req_body req of
              None \<Rightarrow>
                \<lparr>post_response =
                   \<lparr>status = 400, resp_headers = [],
                    resp_body = Failure_body ''Invalid JSON body'' ''INVALID_JSON'' None\<rparr>,
                 post_rateLimitMap = m', post_sendContactEmail_calls = [], post_fetch_calls = []\<rparr>
            | Some body \<Rightarrow>
                (case contactSchema (email_syntax w) (checks_on_other w) body of
                   Inl issues \<Rightarrow>
                     (let errors = map (\<lambda>issue. \<lparr>entry_field = join_dot (issue_path issue),
                                                  entry_message = issue_message issue\<rparr>) issues
                      in \<lparr>post_response =
                            \<lparr>status = 400, resp_headers = [],
                             resp_body = Failure_body msg_invalid_data ''VALIDATION_ERROR''
                                           (Some errors)\<rparr>,
                          post_rateLimitMap = m', post_sendContactEmail_calls = [],
                          post_fetch_calls = []\<rparr>)
                 | Inr data \<Rightarrow>
                     if honeypot_filled (cf_honeypot data) then
                       \<lparr>post_response = json_response (Success_body msg_sent None),
                        post_rateLimitMap = m', post_sendContactEmail_calls = [],
                        post_fetch_calls = []\<rparr>
                     else
                       (let params = \<lparr>p_name = cf_name data, p_email = cf_email data,
                                      p_subject = cf_subject data, p_message = cf_message data,
                                      p_projectType = cf_projectType data,
                                      p_budget = cf_budget data\<rparr>
                        in case sendContactEmail (process_env w) (render_email w) (fetch_impl w)
                                  params of
                             (Inl err, calls) \<Rightarrow>
                               \<lparr>post_response =
                                  \<lparr>status = 500, resp_headers = [],
                                   resp_body = Failure_body msg_server_error ''SERVER_ERROR'' None\<rparr>,
                                post_rateLimitMap = m', post_sendContactEmail_calls = [params],
                                post_fetch_calls = calls\<rparr>
                           | (Inr messageId, calls) \<Rightarrow>
                               \<lparr>post_response =
                                  json_response (Success_body msg_sent (Some messageId)),
                                post_rateLimitMap = m', post_sendContactEmail_calls = [params],
                                post_fetch_calls = calls\<rparr>))))"

text \<open>Requests handled one after the other by one process; the rate-limit map goes from
  each run to the next.\<close>

fun run_POST :: "(platform \<times> request) list \<Rightarrow> rateLimitMap \<Rightarrow> post_result list" where
  "run_POST [] m = []"
| "run_POST ((w, req) # rest) m =
     (let r = POST w req m in r # run_POST rest (post_rateLimitMap r))"


section \<open>The data model of the specification\<close>

text \<open>
  A submission as the specification describes it: four texts, two optional categories
  and an optional honeypot text. \<open>carries body s\<close> says that the JSON body is an object
  whose properties hold the fields of \<open>s\<close>.
\<close>

record submission =
  s_name :: string
  s_email :: string
  s_subject :: string
  s_message :: string
  s_projectType :: "string option"
  s_budget :: "string option"
  s_honeypot :: "string option"

definition carries :: "json \<Rightarrow> submission \<Rightarrow> bool" where
  "carries body s =
     (case body of
        JObject props \<Rightarrow>
          map_of props ''name'' = Some (JString (s_name s))
          \<and> map_of props ''email'' = Some (JString (s_email s))
          \<and> map_of props ''subject'' = Some (JString (s_subject s))
          \<and> map_of props ''message'' = Some (JString (s_message s))
          \<and> map_of props ''projectType'' = map_option JString (s_projectType s)
          \<and> map_of props ''budget'' = map_option JString (s_budget s)
          \<and> map_of props ''honeypot'' = map_option JString (s_honeypot s)
      | _ \<Rightarrow> False)"

text \<open>
  The field constraints in the words of the data model: name of 2 to 100 characters;
  email of valid syntax; email of at most 255 characters; subject of 3 to 200
  characters; message of 20 to 5000 characters; project type and budget, when given, in
  their closed sets. A non-empty honeypot is no violation: by the invariant of the data
  model it does not invalidate the schema. \<open>violated_constraints\<close> lists the field of
  every constraint that a submission violates.
\<close>

definition violated_constraints :: "(string \<Rightarrow> bool) \<Rightarrow> submission \<Rightarrow> string list" where
  "violated_constraints is_email s =
     (if 2 \<le> length (s_name s) \<and> length (s_name s) \<le> 100 then [] else [''name''])
     @ (if is_email (s_email s) then [] else [''email''])
     @ (if length (s_email s) \<le> 255 then [] else [''email''])
     @ (if 3 \<le> length (s_subject s) \<and> length (s_subject s) \<le> 200 then [] else [''subject''])
     @ (if 20 \<le> length (s_message s) \<and> length (s_message s) \<le> 5000 then [] else [''message''])
     @ (case s_projectType s of
          None \<Rightarrow> []
        | Some p \<Rightarrow> if p \<in> set projectTypes then [] else [''projectType''])
     @ (case s_budget s of
          None \<Rightarrow> []
        | Some b \<Rightarrow> if b \<in> set budgetRanges then [] else [''budget''])"

text \<open>The honeypot property of a JSON body, when it is a string.\<close>

definition body_honeypot :: "json \<Rightarrow> string option" where
  "body_honeypot body =
     (case body of
        JObject props \<Rightarrow>
          (case map_of props ''honeypot'' of Some (JString h) \<Rightarrow> Some h | _ \<Rightarrow> None)
      | _ \<Rightarrow> None)"

section \<open>Example inputs\<close>

text \<open>A production platform whose provider accepts every message, at clock value \<open>t\<close>.
  Its email syntax test asks for an at sign, and a value of the wrong type is the type
  issue alone.\<close>

definition example_platform :: "int \<Rightarrow> platform" where
  "example_platform t =
     \<lparr>date_now = t,
      process_env = \<lparr>NODE_ENV = Some ''production'', BREVO_API_KEY = Some ''xkeysib-1'',
                     BREVO_SENDER_EMAIL = Some ''site@example.org'', BREVO_SENDER_NAME = None,
                     BREVO_RECEIVER_EMAIL = None\<rparr>,
      email_syntax = (\<lambda>s. CHR ''@'' \<in> set s),
      checks_on_other = (\<lambda>checks v. []),
      render_email = (\<lambda>p. Inr (''<p>'' @ p_message p @ ''</p>'', p_message p)),
      fetch_impl =
        (\<lambda>r. Fetch_response
               \<lparr>ok = True, http_status = 201, statusText = ''Created'',
                json_body = Some \<lparr>j_message = None, j_code = None,
                                  j_messageId = Some ''<m1@relay>''\<rparr>\<rparr>)\<rparr>"

text \<open>A request from the client 203.0.113.7, behind one proxy, with a JSON object as
  body.\<close>

definition example_request :: "(string \<times> json) list \<Rightarrow> request" where
  "example_request props =
     \<lparr>req_headers = [''x-forwarded-for'' \<mapsto> ''203.0.113.7, 10.0.0.1''],
      req_body = Some (JObject props)\<rparr>"

text \<open>The payload of the specification's scenario: name "Jo", email "a@b.com", subject
  "Hi there", a message of twenty letters, an empty honeypot.\<close>

definition valid_payload :: "(string \<times> json) list" where
  "valid_payload =
     [(''name'', JString ''Jo''), (''email'', JString ''a@b.com''),
      (''subject'', JString ''Hi there''), (''message'', JString (replicate 20 CHR ''x'')),
      (''honeypot'', JString [])]"

text \<open>The same payload six times in one window, the last at the very end of it.\<close>

definition six_requests :: "(platform \<times> request) list" where
  "six_requests =
     map (\<lambda>t. (example_platform t, example_request valid_payload))
       [1000, 11000, 21000, 31000, 41000, 61000]"

text \<open>A request of the same client whose body is not JSON, and a map in which this
  client has used up its window.\<close>

definition malformed_request :: request where
  "malformed_request =
     \<lparr>req_headers = [''x-forwarded-for'' \<mapsto> ''203.0.113.7, 10.0.0.1''], req_body = None\<rparr>"

definition exhausted_window :: rateLimitMap where
  "exhausted_window = [''203.0.113.7'' \<mapsto> \<lparr>count = 5, resetTime = 61000\<rparr>]"

text \<open>Payloads that differ from the valid one in one field: a filled honeypot; a
  message of five letters.\<close>

definition honeypot_payload :: "(string \<times> json) list" where
  "honeypot_payload =
     [(''name'', JString ''Jo''), (''email'', JString ''a@b.com''),
      (''subject'', JString ''Hi there''), (''message'', JString (replicate 20 CHR ''x'')),
      (''honeypot'', JString ''bot'')]"

definition short_message_payload :: "(string \<times> json) list" where
  "short_message_payload =
     [(''name'', JString ''Jo''), (''email'', JString ''a@b.com''),
      (''subject'', JString ''Hi there''), (''message'', JString ''hello''),
      (''honeypot'', JString [])]"

definition short_message_submission :: submission where
  "short_message_submission =
     \<lparr>s_name = ''Jo'', s_email = ''a@b.com'', s_subject = ''Hi there'', s_message = ''hello'',
      s_projectType = None, s_budget = None, s_honeypot = Some []\<rparr>"

text \<open>Environments without the API key: one in production, one in development.\<close>

definition production_env_without_key :: env where
  "production_env_without_key =
     \<lparr>NODE_ENV = Some ''production'', BREVO_API_KEY = None,
      BREVO_SENDER_EMAIL = Some ''site@example.org'', BREVO_SENDER_NAME = None,
      BREVO_RECEIVER_EMAIL = None\<rparr>"

definition development_env_without_key :: env where
  "development_env_without_key =
     \<lparr>NODE_ENV = Some ''development'', BREVO_API_KEY = None,
      BREVO_SENDER_EMAIL = None, BREVO_SENDER_NAME = None, BREVO_RECEIVER_EMAIL = None\<rparr>"

definition example_params :: SendContactEmailParams where
  "example_params =
     \<lparr>p_name = ''Jo'', p_email = ''a@b.com'', p_subject = ''Hi there'',
      p_message = replicate 20 CHR ''x'', p_projectType = None, p_budget = None\<rparr>"

text \<open>The example platform outside production, a valid payload with both categories and
  a link in the honeypot, and a map in which the client has made two requests in its
  window.\<close>

definition development_platform :: "int \<Rightarrow> platform" where
  "development_platform t = (example_platform t)\<lparr>process_env := development_env_without_key\<rparr>"

definition spam_payload :: "(string \<times> json) list" where
  "spam_payload =
     [(''name'', JString ''Jo''), (''email'', JString ''a@b.com''),
      (''subject'', JString ''Hi there''), (''message'', JString (replicate 20 CHR ''x'')),
      (''projectType'', JString ''website''), (''budget'', JString ''5k-10k''),
      (''honeypot'', JString ''https://spam.example'')]"

definition open_window :: rateLimitMap where
  "open_window = [''203.0.113.7'' \<mapsto> \<lparr>count = 2, resetTime = 61000\<rparr>]"


section \<open>Properties of the rate limiter\<close>

text \<open>
  Claim C1. A call of \<open>isRateLimited\<close> on a key with no stored record, or with a record
  whose window has elapsed (\<open>now > resetTime\<close>), stores the fresh record
  \<open>{count: 1, resetTime: now + windowMs}\<close> and returns false. Otherwise the stored count
  is incremented (the reset time is kept) and the call returns true exactly when the
  incremented count exceeds \<open>maxRequests\<close>. Without options, and for each field that an
  options object leaves out, \<open>maxRequests\<close> is 5 and \<open>windowMs\<close> is 60000.
\<close>

theorem isRateLimited_fixed_window:
  "((m key = None \<or> (\<exists>rec. m key = Some rec \<and> now > resetTime rec)) \<longrightarrow>
      isRateLimited now key (Some \<lparr>maxRequests = Some mx, windowMs = Some w\<rparr>) m =
        (False, m(key \<mapsto> \<lparr>count = 1, resetTime = now + w\<rparr>)))
   \<and> ((m key = Some rec \<and> \<not> now > resetTime rec) \<longrightarrow>
      isRateLimited now key (Some \<lparr>maxRequests = Some mx, windowMs = Some w\<rparr>) m =
        (count rec + 1 > mx, m(key \<mapsto> \<lparr>count = count rec + 1, resetTime = resetTime rec\<rparr>)))
   \<and> isRateLimited now key None m =
        isRateLimited now key (Some \<lparr>maxRequests = Some 5, windowMs = Some 60000\<rparr>) m
   \<and> isRateLimited now key (Some \<lparr>maxRequests = a, windowMs = b\<rparr>) m =
        isRateLimited now key
          (Some \<lparr>maxRequests = Some (case a of None \<Rightarrow> 5 | Some n \<Rightarrow> n),
                 windowMs = Some (case b of None \<Rightarrow> 60000 | Some n \<Rightarrow> n)\<rparr>) m"
  by (auto simp: isRateLimited_def option_maxRequests_def option_windowMs_def
      DEFAULT_MAX_REQUESTS_def DEFAULT_WINDOW_MS_def Let_def split: option.splits)

theorem isRateLimited_fixed_window_witness:
  "isRateLimited 1000 ''10.0.0.1'' None Map.empty =
     (False, [''10.0.0.1'' \<mapsto> \<lparr>count = 1, resetTime = 61000\<rparr>])
   \<and> isRateLimited 70000 ''10.0.0.1'' None [''10.0.0.1'' \<mapsto> \<lparr>count = 9, resetTime = 61000\<rparr>] =
     (False, [''10.0.0.1'' \<mapsto> \<lparr>count = 1, resetTime = 130000\<rparr>])
   \<and> isRateLimited 2000 ''10.0.0.1'' None [''10.0.0.1'' \<mapsto> \<lparr>count = 5, resetTime = 61000\<rparr>] =
     (True, [''10.0.0.1'' \<mapsto> \<lparr>count = 6, resetTime = 61000\<rparr>])
   \<and> isRateLimited 2000 ''10.0.0.1'' None [''10.0.0.1'' \<mapsto> \<lparr>count = 4, resetTime = 61000\<rparr>] =
     (False, [''10.0.0.1'' \<mapsto> \<lparr>count = 5, resetTime = 61000\<rparr>])"
  using
    isRateLimited_fixed_window [of Map.empty "''10.0.0.1''" 1000 5 60000 undefined None None]
    isRateLimited_fixed_window [of "[''10.0.0.1'' \<mapsto> \<lparr>count = 9, resetTime = 61000\<rparr>]"
      "''10.0.0.1''" 70000 5 60000 "\<lparr>count = 9, resetTime = 61000\<rparr>" None None]
    isRateLimited_fixed_window [of "[''10.0.0.1'' \<mapsto> \<lparr>count = 5, resetTime = 61000\<rparr>]"
      "''10.0.0.1''" 2000 5 60000 "\<lparr>count = 5, resetTime = 61000\<rparr>" None None]
    isRateLimited_fixed_window [of "[''10.0.0.1'' \<mapsto> \<lparr>count = 4, resetTime = 61000\<rparr>]"
      "''10.0.0.1''" 2000 5 60000 "\<lparr>count = 4, resetTime = 61000\<rparr>" None None]
  by simp

text \<open>
  Claim C10. On a key with no stored record, or with a record whose window has elapsed,
  \<open>isRateLimited\<close> returns false whatever \<open>maxRequests\<close> is (0 and negative values
  included): the fresh-window branch stores count 1 and never compares it with the limit.
\<close>

theorem isRateLimited_fresh_window_never_limited:
  "m key = None \<or> (\<exists>rec. m key = Some rec \<and> now > resetTime rec) \<Longrightarrow>
     fst (isRateLimited now key options m) = False
     \<and> map_option count (snd (isRateLimited now key options m) key) = Some 1"
  by (auto simp: isRateLimited_def Let_def split: option.splits)

theorem isRateLimited_fresh_window_never_limited_witness:
  "fst (isRateLimited 1000 ''10.0.0.1'' (Some \<lparr>maxRequests = Some 0, windowMs = None\<rparr>) Map.empty) = False
   \<and> map_option count
        (snd (isRateLimited 1000 ''10.0.0.1'' (Some \<lparr>maxRequests = Some 0, windowMs = None\<rparr>) Map.empty)
           ''10.0.0.1'') = Some 1"
  using isRateLimited_fresh_window_never_limited
    [of Map.empty "''10.0.0.1''" 1000 "Some \<lparr>maxRequests = Some 0, windowMs = None\<rparr>"]
  by simp

subsection \<open>The sweep\<close>

lemma fst_isRateLimited:
  "fst (isRateLimited now key options m) =
     (case m key of
        None \<Rightarrow> False
      | Some rec \<Rightarrow> \<not> now > resetTime rec \<and> count rec + 1 > option_maxRequests options)"
  by (simp add: isRateLimited_def Let_def split: option.split)

lemma snd_isRateLimited_key:
  "snd (isRateLimited now key options m) key =
     Some (case m key of
             None \<Rightarrow> \<lparr>count = 1, resetTime = now + option_windowMs options\<rparr>
           | Some rec \<Rightarrow>
               if now > resetTime rec
               then \<lparr>count = 1, resetTime = now + option_windowMs options\<rparr>
               else rec\<lparr>count := count rec + 1\<rparr>)"
  by (simp add: isRateLimited_def Let_def split: option.split)

lemma snd_isRateLimited_other:
  "k \<noteq> key \<Longrightarrow> snd (isRateLimited now key options m) k = m k"
  by (simp add: isRateLimited_def Let_def split: option.split)

lemma agree_refl: "agree_up_to_expired t m m"
  by (simp add: agree_up_to_expired_def)

lemma agree_check:
  assumes "agree_up_to_expired t m m'" "t \<le> now"
  shows "fst (isRateLimited now key options m') = fst (isRateLimited now key options m)"
    and "agree_up_to_expired now (snd (isRateLimited now key options m)) (snd (isRateLimited now key options m'))"
proof -
  from assms(1) have k: "m' key = m key \<or> (m' key = None \<and> (\<exists>rec. m key = Some rec \<and> resetTime rec < t))"
    by (simp add: agree_up_to_expired_def)
  from k assms(2) show "fst (isRateLimited now key options m') = fst (isRateLimited now key options m)"
    by (auto simp: fst_isRateLimited)
  show "agree_up_to_expired now (snd (isRateLimited now key options m)) (snd (isRateLimited now key options m'))"
    unfolding agree_up_to_expired_def
  proof
    fix k'
    from assms(1) have o: "m' k' = m k' \<or> (m' k' = None \<and> (\<exists>rec. m k' = Some rec \<and> resetTime rec < t))"
      by (simp add: agree_up_to_expired_def)
    show "snd (isRateLimited now key options m') k' = snd (isRateLimited now key options m) k' \<or>
         snd (isRateLimited now key options m') k' = None \<and>
         (\<exists>rec. snd (isRateLimited now key options m) k' = Some rec \<and> resetTime rec < now)"
    proof (cases "k' = key")
      case True
      from k assms(2) show ?thesis
        by (auto simp: True snd_isRateLimited_key)
    next
      case False
      with o assms(2) show ?thesis
        by (auto simp: snd_isRateLimited_other)
    qed
  qed
qed

lemma agree_sweep:
  assumes "agree_up_to_expired t m m'" "t \<le> now"
  shows "agree_up_to_expired now m (cleanupRateLimitMap now m')"
  unfolding agree_up_to_expired_def
proof
  fix k
  from assms(1) have o: "m' k = m k \<or> (m' k = None \<and> (\<exists>rec. m k = Some rec \<and> resetTime rec < t))"
    by (simp add: agree_up_to_expired_def)
  with assms(2) show "cleanupRateLimitMap now m' k = m k \<or>
         cleanupRateLimitMap now m' k = None \<and> (\<exists>rec. m k = Some rec \<and> resetTime rec < now)"
    by (auto simp: cleanupRateLimitMap_def split: option.splits)
qed

lemma run_events_agree:
  "agree_up_to_expired t m m' \<Longrightarrow> sorted (t # map fst evs) \<Longrightarrow>
     run_events evs m' = run_events (filter is_Check evs) m"
proof (induction evs arbitrary: t m m')
  case Nil
  then show ?case by simp
next
  case (Cons ev evs)
  obtain now e where ev: "ev = (now, e)" by (cases ev)
  from Cons.prems(2) ev have le: "t \<le> now" and srt: "sorted (now # map fst evs)"
    by auto
  show ?case
  proof (cases e)
    case (Check key options)
    have a: "agree_up_to_expired now (snd (isRateLimited now key options m)) (snd (isRateLimited now key options m'))"
      using agree_check(2) [OF Cons.prems(1) le] .
    have f: "fst (isRateLimited now key options m') = fst (isRateLimited now key options m)"
      using agree_check(1) [OF Cons.prems(1) le] .
    from Cons.IH [OF a srt] f show ?thesis
      by (simp add: ev Check is_Check_def split_beta Let_def)
  next
    case Sweep
    have a: "agree_up_to_expired now m (cleanupRateLimitMap now m')"
      using agree_sweep [OF Cons.prems(1) le] .
    from Cons.IH [OF a srt] show ?thesis
      by (simp add: ev Sweep is_Check_def)
  qed
qed

text \<open>
  Claim C7. Running the sweep at any point between calls of \<open>isRateLimited\<close> does not
  change the boolean any later call returns: for every sequence of calls and sweeps whose
  clock values do not decrease, the calls return what they return when the sweeps are
  left out. The sweep removes exactly the records with \<open>now > resetTime\<close>, and
  \<open>isRateLimited\<close> does on such a record what it does on an absent one.
\<close>

theorem sweep_never_changes_results:
  "(sorted (map fst evs) \<longrightarrow> run_events evs m = run_events (filter is_Check evs) m)
   \<and> cleanupRateLimitMap now m key =
       (if \<exists>rec. m key = Some rec \<and> now > resetTime rec then None else m key)
   \<and> ((\<exists>rec. m key = Some rec \<and> now > resetTime rec) \<longrightarrow>
        isRateLimited now key options m = isRateLimited now key options (m(key := None)))"
proof (intro conjI impI)
  assume s: "sorted (map fst evs)"
  show "run_events evs m = run_events (filter is_Check evs) m"
  proof (cases evs)
    case Nil
    then show ?thesis by simp
  next
    case (Cons ev rest)
    with s have "sorted (fst ev # map fst evs)" by simp
    from run_events_agree [OF agree_refl this] show ?thesis .
  qed
next
  show "cleanupRateLimitMap now m key =
       (if \<exists>rec. m key = Some rec \<and> now > resetTime rec then None else m key)"
    by (auto simp: cleanupRateLimitMap_def split: option.splits)
next
  assume "\<exists>rec. m key = Some rec \<and> now > resetTime rec"
  then show "isRateLimited now key options m = isRateLimited now key options (m(key := None))"
    by (auto simp: isRateLimited_def Let_def)
qed


theorem sweep_never_changes_results_witness:
  "sorted (map fst [(1000::int, Check ''10.0.0.1'' None), (30000, Sweep), (59000, Check ''10.0.0.1'' None),
                    (70000, Sweep), (70001, Check ''10.0.0.1'' None)])
   \<and> run_events [(1000, Check ''10.0.0.1'' None), (30000, Sweep), (59000, Check ''10.0.0.1'' None),
                  (70000, Sweep), (70001, Check ''10.0.0.1'' None)]
         [''10.0.0.1'' \<mapsto> \<lparr>count = 5, resetTime = 60000\<rparr>]
       = [True, True, False]
   \<and> run_events [(1000, Check ''10.0.0.1'' None), (59000, Check ''10.0.0.1'' None),
                  (70001, Check ''10.0.0.1'' None)]
         [''10.0.0.1'' \<mapsto> \<lparr>count = 5, resetTime = 60000\<rparr>]
       = [True, True, False]
   \<and> cleanupRateLimitMap 70000 [''10.0.0.1'' \<mapsto> \<lparr>count = 5, resetTime = 60000\<rparr>] ''10.0.0.1'' = None
   \<and> (\<exists>rec. [''10.0.0.1'' \<mapsto> \<lparr>count = 5, resetTime = 60000\<rparr>] ''10.0.0.1'' = Some rec
              \<and> 70000 > resetTime rec)
   \<and> isRateLimited 70000 ''10.0.0.1'' None [''10.0.0.1'' \<mapsto> \<lparr>count = 5, resetTime = 60000\<rparr>]
       = isRateLimited 70000 ''10.0.0.1'' None Map.empty"
  using sweep_never_changes_results
    [of "[(1000, Check ''10.0.0.1'' None), (30000, Sweep), (59000, Check ''10.0.0.1'' None),
          (70000, Sweep), (70001, Check ''10.0.0.1'' None)]"
        "[''10.0.0.1'' \<mapsto> \<lparr>count = 5, resetTime = 60000\<rparr>]" 70000 "''10.0.0.1''" None]
  by (simp add: is_Check_def isRateLimited_def cleanupRateLimitMap_def option_maxRequests_def
      option_windowMs_def DEFAULT_MAX_REQUESTS_def DEFAULT_WINDOW_MS_def)


section \<open>Properties of the schema\<close>

lemma collect_properties:
  "(case (r1, r2, r3, r4, r5, r6, r7) of
      (Inr n, Inr e, Inr s, Inr m, Inr p, Inr b, Inr h) \<Rightarrow> Inr (f n e s m p b h)
    | _ \<Rightarrow> Inl is) =
   (if isl r1 \<or> isl r2 \<or> isl r3 \<or> isl r4 \<or> isl r5 \<or> isl r6 \<or> isl r7 then Inl is
    else Inr (f (projr r1) (projr r2) (projr r3) (projr r4) (projr r5) (projr r6) (projr r7)))"
  by (cases r1; cases r2; cases r3; cases r4; cases r5; cases r6; cases r7) simp_all

lemma string_field:
  assumes "lo \<le> hi"
  shows "isl (z_string other [z_min lo a, z_max hi b] (Some (JString x))) =
           (\<not> (lo \<le> length x \<and> length x \<le> hi))"
    and "at_key k (z_string other [z_min lo a, z_max hi b] (Some (JString x))) =
           (if length x < lo
            then [\<lparr>issue_code = too_small, issue_path = [k], issue_message = Message a\<rparr>]
            else if hi < length x
            then [\<lparr>issue_code = too_big, issue_path = [k], issue_message = Message b\<rparr>]
            else [])"
    and "lo \<le> length x \<and> length x \<le> hi \<Longrightarrow>
           projr (z_string other [z_min lo a, z_max hi b] (Some (JString x))) = x"
  using assms by (auto simp: z_string_def z_min_def z_max_def at_key_def)

lemma email_field:
  shows "isl (z_email is_email other a [z_max hi b] (Some (JString x))) =
           (\<not> is_email x \<or> hi < length x)"
    and "at_key k (z_email is_email other a [z_max hi b] (Some (JString x))) =
           (if is_email x then []
            else [\<lparr>issue_code = invalid_format, issue_path = [k], issue_message = Message a\<rparr>])
           @ (if hi < length x
              then [\<lparr>issue_code = too_big, issue_path = [k], issue_message = Message b\<rparr>]
              else [])"
    and "is_email x \<and> length x \<le> hi \<Longrightarrow>
           projr (z_email is_email other a [z_max hi b] (Some (JString x))) = x"
  by (auto simp: z_email_def z_max_def at_key_def)

lemma enum_field:
  shows "isl (z_optional (z_enum vs) (map_option JString v)) =
           (case v of None \<Rightarrow> False | Some p \<Rightarrow> p \<notin> set vs)"
    and "at_key k (z_optional (z_enum vs) (map_option JString v)) =
           (case v of
              None \<Rightarrow> []
            | Some p \<Rightarrow>
                if p \<in> set vs then []
                else [\<lparr>issue_code = invalid_value, issue_path = [k],
                       issue_message = Default_message\<rparr>])"
    and "(case v of None \<Rightarrow> True | Some p \<Rightarrow> p \<in> set vs) \<Longrightarrow>
           projr (z_optional (z_enum vs) (map_option JString v)) = v"
  by (auto simp: z_optional_def z_enum_def at_key_def split: option.splits)

lemma honeypot_field:
  shows "isl (z_optional (z_string other [z_max 0 a]) (map_option JString v)) =
           (case v of None \<Rightarrow> False | Some h \<Rightarrow> h \<noteq> [])"
    and "at_key k (z_optional (z_string other [z_max 0 a]) (map_option JString v)) =
           (case v of
              None \<Rightarrow> []
            | Some h \<Rightarrow>
                if h = [] then []
                else [\<lparr>issue_code = too_big, issue_path = [k], issue_message = Message a\<rparr>])"
    and "(case v of None \<Rightarrow> True | Some h \<Rightarrow> h = []) \<Longrightarrow>
           projr (z_optional (z_string other [z_max 0 a]) (map_option JString v)) = v"
  by (auto simp: z_optional_def z_string_def z_max_def at_key_def split: option.splits)

lemma if_nil_single [simp]:
  "((if c then [] else [x]) = []) = c"
  "((if c then [x] else []) = []) = (\<not> c)"
  by simp_all

lemma contactSchema_on_submission:
  assumes "carries body s"
    and unfilled: "s_honeypot s = None \<or> s_honeypot s = Some []"
  shows "case contactSchema is_email other body of
           Inr data \<Rightarrow>
             violated_constraints is_email s = []
             \<and> data = \<lparr>cf_name = s_name s, cf_email = s_email s, cf_subject = s_subject s,
                       cf_message = s_message s, cf_projectType = s_projectType s,
                       cf_budget = s_budget s, cf_honeypot = s_honeypot s\<rparr>
         | Inl issues \<Rightarrow>
             violated_constraints is_email s \<noteq> []
             \<and> map issue_path issues = map (\<lambda>f. [f]) (violated_constraints is_email s)
             \<and> (length (s_message s) < 20 \<longrightarrow>
                  filter (\<lambda>i. issue_path i = [''message'']) issues =
                    [\<lparr>issue_code = too_small, issue_path = [''message''],
                      issue_message = Message msg_message_min\<rparr>])"
proof -
  from assms obtain props where body: "body = JObject props"
    and lookups:
      "map_of props ''name'' = Some (JString (s_name s))"
      "map_of props ''email'' = Some (JString (s_email s))"
      "map_of props ''subject'' = Some (JString (s_subject s))"
      "map_of props ''message'' = Some (JString (s_message s))"
      "map_of props ''projectType'' = map_option JString (s_projectType s)"
      "map_of props ''budget'' = map_option JString (s_budget s)"
      "map_of props ''honeypot'' = map_option JString (s_honeypot s)"
    by (cases body) (auto simp: carries_def)
  define r1 where "r1 = z_string other [z_min 2 msg_name_min, z_max 100 msg_name_max]
    (Some (JString (s_name s)))"
  define r2 where "r2 = z_email is_email other msg_email_invalid [z_max 255 msg_email_max]
    (Some (JString (s_email s)))"
  define r3 where "r3 = z_string other [z_min 3 msg_subject_min, z_max 200 msg_subject_max]
    (Some (JString (s_subject s)))"
  define r4 where "r4 = z_string other [z_min 20 msg_message_min, z_max 5000 msg_message_max]
    (Some (JString (s_message s)))"
  define r5 where "r5 = z_optional (z_enum projectTypes) (map_option JString (s_projectType s))"
  define r6 where "r6 = z_optional (z_enum budgetRanges) (map_option JString (s_budget s))"
  define r7 where "r7 = z_optional (z_string other [z_max 0 msg_honeypot])
    (map_option JString (s_honeypot s))"
  define issues where "issues = at_key ''name'' r1 @ at_key ''email'' r2 @ at_key ''subject'' r3
    @ at_key ''message'' r4 @ at_key ''projectType'' r5 @ at_key ''budget'' r6
    @ at_key ''honeypot'' r7"
  have cs: "contactSchema is_email other body =
      (if isl r1 \<or> isl r2 \<or> isl r3 \<or> isl r4 \<or> isl r5 \<or> isl r6 \<or> isl r7 then Inl issues
       else Inr \<lparr>cf_name = projr r1, cf_email = projr r2, cf_subject = projr r3,
                 cf_message = projr r4, cf_projectType = projr r5, cf_budget = projr r6,
                 cf_honeypot = projr r7\<rparr>)"
    unfolding body r1_def r2_def r3_def r4_def r5_def r6_def r7_def issues_def
    by (simp only: contactSchema_def Let_def collect_properties json.case lookups)
  define v1 where "v1 = (if 2 \<le> length (s_name s) \<and> length (s_name s) \<le> 100 then []
    else [''name''])"
  define v2 where "v2 = (if is_email (s_email s) then [] else [''email''])"
  define v2' where "v2' = (if length (s_email s) \<le> 255 then [] else [''email''])"
  define v3 where "v3 = (if 3 \<le> length (s_subject s) \<and> length (s_subject s) \<le> 200 then []
    else [''subject''])"
  define v4 where "v4 = (if 20 \<le> length (s_message s) \<and> length (s_message s) \<le> 5000 then []
    else [''message''])"
  define v5 where "v5 = (case s_projectType s of None \<Rightarrow> []
    | Some p \<Rightarrow> if p \<in> set projectTypes then [] else [''projectType''])"
  define v6 where "v6 = (case s_budget s of None \<Rightarrow> []
    | Some b \<Rightarrow> if b \<in> set budgetRanges then [] else [''budget''])"
  define v7 where "v7 = (case s_honeypot s of None \<Rightarrow> []
    | Some h \<Rightarrow> if h = [] then [] else [''honeypot''])"
  have v: "violated_constraints is_email s = v1 @ v2 @ v2' @ v3 @ v4 @ v5 @ v6"
    by (simp only: violated_constraints_def v1_def v2_def v2'_def v3_def v4_def v5_def v6_def)
  have v7: "v7 = []"
    using unfilled by (auto simp: v7_def)
  have n1: "isl r1 = (v1 \<noteq> [])"
    by (simp add: r1_def v1_def string_field(1))
  have n2: "isl r2 = (v2 @ v2' \<noteq> [])"
    by (auto simp: r2_def v2_def v2'_def email_field(1))
  have n3: "isl r3 = (v3 \<noteq> [])"
    by (simp add: r3_def v3_def string_field(1))
  have n4: "isl r4 = (v4 \<noteq> [])"
    by (simp add: r4_def v4_def string_field(1))
  have n5: "isl r5 = (v5 \<noteq> [])"
    by (simp add: r5_def v5_def enum_field(1) split: option.split)
  have n6: "isl r6 = (v6 \<noteq> [])"
    by (simp add: r6_def v6_def enum_field(1) split: option.split)
  have n7: "isl r7 = (v7 \<noteq> [])"
    by (simp add: r7_def v7_def honeypot_field(1) split: option.split)
  have rejected: "(isl r1 \<or> isl r2 \<or> isl r3 \<or> isl r4 \<or> isl r5 \<or> isl r6 \<or> isl r7) =
      (violated_constraints is_email s \<noteq> [])"
    unfolding v n1 n2 n3 n4 n5 n6 n7 v7 by auto
  have p1: "map issue_path (at_key ''name'' r1) = map (\<lambda>f. [f]) v1"
    by (simp add: r1_def v1_def string_field(2))
  have p2: "map issue_path (at_key ''email'' r2) = map (\<lambda>f. [f]) (v2 @ v2')"
    by (simp add: r2_def v2_def v2'_def email_field(2))
  have p3: "map issue_path (at_key ''subject'' r3) = map (\<lambda>f. [f]) v3"
    by (simp add: r3_def v3_def string_field(2))
  have p4: "map issue_path (at_key ''message'' r4) = map (\<lambda>f. [f]) v4"
    by (simp add: r4_def v4_def string_field(2))
  have p5: "map issue_path (at_key ''projectType'' r5) = map (\<lambda>f. [f]) v5"
    by (simp add: r5_def v5_def enum_field(2) split: option.split)
  have p6: "map issue_path (at_key ''budget'' r6) = map (\<lambda>f. [f]) v6"
    by (simp add: r6_def v6_def enum_field(2) split: option.split)
  have p7: "map issue_path (at_key ''honeypot'' r7) = map (\<lambda>f. [f]) v7"
    by (simp add: r7_def v7_def honeypot_field(2) split: option.split)
  have paths: "map issue_path issues = map (\<lambda>f. [f]) (violated_constraints is_email s)"
    by (simp add: issues_def v p1 p2 p3 p4 p5 p6 p7 v7)
  have other: "filter (\<lambda>i. issue_path i = [''message'']) (at_key k r) = []"
    if "k \<noteq> ''message''" for k and r :: "issue list + 'x"
    using that by (auto simp: at_key_def filter_empty_conv split: sum.splits)
  have msg: "filter (\<lambda>i. issue_path i = [''message'']) issues =
      [\<lparr>issue_code = too_small, issue_path = [''message''],
        issue_message = Message msg_message_min\<rparr>]"
    if "length (s_message s) < 20"
    using that by (simp add: issues_def other r4_def string_field(2))
  have accepted: "projr r1 = s_name s \<and> projr r2 = s_email s \<and> projr r3 = s_subject s
      \<and> projr r4 = s_message s \<and> projr r5 = s_projectType s \<and> projr r6 = s_budget s
      \<and> projr r7 = s_honeypot s"
    if "violated_constraints is_email s = []"
  proof -
    from that v7 have e: "v1 = []" "v2 = []" "v2' = []" "v3 = []" "v4 = []" "v5 = []" "v6 = []"
      "v7 = []"
      by (simp_all add: v)
    from e(1) have "projr r1 = s_name s"
      by (simp add: r1_def v1_def string_field(3))
    moreover from e(2,3) have "projr r2 = s_email s"
      by (simp add: r2_def v2_def v2'_def email_field(3))
    moreover from e(4) have "projr r3 = s_subject s"
      by (simp add: r3_def v3_def string_field(3))
    moreover from e(5) have "projr r4 = s_message s"
      by (simp add: r4_def v4_def string_field(3))
    moreover have "projr r5 = s_projectType s"
    proof -
      from e(6) have "case s_projectType s of None \<Rightarrow> True | Some p \<Rightarrow> p \<in> set projectTypes"
        by (simp add: v5_def split: option.splits if_splits)
      from enum_field(3) [OF this] show ?thesis by (simp only: r5_def)
    qed
    moreover have "projr r6 = s_budget s"
    proof -
      from e(7) have "case s_budget s of None \<Rightarrow> True | Some p \<Rightarrow> p \<in> set budgetRanges"
        by (simp add: v6_def split: option.splits if_splits)
      from enum_field(3) [OF this] show ?thesis by (simp only: r6_def)
    qed
    moreover have "projr r7 = s_honeypot s"
    proof -
      from e(8) have "case s_honeypot s of None \<Rightarrow> True | Some h \<Rightarrow> h = []"
        by (simp add: v7_def split: option.splits if_splits)
      from honeypot_field(3) [OF this] show ?thesis by (simp only: r7_def)
    qed
    ultimately show ?thesis by simp
  qed
  show ?thesis
  proof (cases "violated_constraints is_email s = []")
    case True
    with rejected accepted show ?thesis
      by (simp add: cs)
  next
    case False
    with rejected paths msg show ?thesis
      by (simp add: cs)
  qed
qed

lemma contactSchema_JObject:
  "contactSchema is_email other (JObject props) =
     (if isl (z_string other [z_min 2 msg_name_min, z_max 100 msg_name_max] (map_of props ''name''))
         \<or> isl (z_email is_email other msg_email_invalid [z_max 255 msg_email_max]
                 (map_of props ''email''))
         \<or> isl (z_string other [z_min 3 msg_subject_min, z_max 200 msg_subject_max]
                 (map_of props ''subject''))
         \<or> isl (z_string other [z_min 20 msg_message_min, z_max 5000 msg_message_max]
                 (map_of props ''message''))
         \<or> isl (z_optional (z_enum projectTypes) (map_of props ''projectType''))
         \<or> isl (z_optional (z_enum budgetRanges) (map_of props ''budget''))
         \<or> isl (z_optional (z_string other [z_max 0 msg_honeypot]) (map_of props ''honeypot''))
      then Inl (at_key ''name''
                  (z_string other [z_min 2 msg_name_min, z_max 100 msg_name_max] (map_of props ''name''))
                @ at_key ''email''
                    (z_email is_email other msg_email_invalid [z_max 255 msg_email_max]
                       (map_of props ''email''))
                @ at_key ''subject''
                    (z_string other [z_min 3 msg_subject_min, z_max 200 msg_subject_max]
                       (map_of props ''subject''))
                @ at_key ''message''
                    (z_string other [z_min 20 msg_message_min, z_max 5000 msg_message_max]
                       (map_of props ''message''))
                @ at_key ''projectType''
                    (z_optional (z_enum projectTypes) (map_of props ''projectType''))
                @ at_key ''budget'' (z_optional (z_enum budgetRanges) (map_of props ''budget''))
                @ at_key ''honeypot''
                    (z_optional (z_string other [z_max 0 msg_honeypot]) (map_of props ''honeypot'')))
      else Inr \<lparr>cf_name = projr (z_string other [z_min 2 msg_name_min, z_max 100 msg_name_max]
                                  (map_of props ''name'')),
                cf_email = projr (z_email is_email other msg_email_invalid [z_max 255 msg_email_max]
                                   (map_of props ''email'')),
                cf_subject = projr (z_string other [z_min 3 msg_subject_min, z_max 200 msg_subject_max]
                                     (map_of props ''subject'')),
                cf_message = projr (z_string other [z_min 20 msg_message_min, z_max 5000 msg_message_max]
                                     (map_of props ''message'')),
                cf_projectType = projr (z_optional (z_enum projectTypes)
                                         (map_of props ''projectType'')),
                cf_budget = projr (z_optional (z_enum budgetRanges) (map_of props ''budget'')),
                cf_honeypot = projr (z_optional (z_string other [z_max 0 msg_honeypot])
                                      (map_of props ''honeypot''))\<rparr>)"
  by (simp only: contactSchema_def Let_def collect_properties json.case)

lemma contactSchema_Inr_honeypot:
  assumes "contactSchema is_email other body = Inr data" and "body_honeypot body = Some h"
  shows "cf_honeypot data = Some h"
proof -
  from assms(2) obtain props where body: "body = JObject props"
    and hp: "map_of props ''honeypot'' = Some (JString h)"
    by (cases body) (auto simp: body_honeypot_def split: option.splits json.splits)
  let ?r = "z_optional (z_string other [z_max 0 msg_honeypot]) (Some (JString h))"
  have i: "isl ?r = (h \<noteq> [])"
    using honeypot_field(1) [where a = msg_honeypot and v = "Some h"] by simp
  have p: "h = [] \<Longrightarrow> projr ?r = Some h"
    using honeypot_field(3) [where a = msg_honeypot and v = "Some h"] by simp
  from assms(1) have "\<not> isl ?r" and d: "cf_honeypot data = projr ?r"
    unfolding body contactSchema_JObject hp by (auto split: if_splits)
  with i p show ?thesis by simp
qed


section \<open>Properties of the endpoint\<close>

subsection \<open>The paths of the handler\<close>

lemma POST_rateLimitMap:
  "post_rateLimitMap (POST w req m) =
     snd (isRateLimited (date_now w) (getClientIp (req_headers req)) None m)"
  by (simp add: POST_def Let_def split_beta split: option.split sum.split prod.split)

lemma POST_limited:
  "fst (isRateLimited (date_now w) (getClientIp (req_headers req)) None m) \<Longrightarrow>
     POST w req m =
       \<lparr>post_response =
          \<lparr>status = 429, resp_headers = [(''Retry-After'', ''60'')],
           resp_body = Failure_body msg_rate_limit ''RATE_LIMIT_EXCEEDED'' None\<rparr>,
        post_rateLimitMap = snd (isRateLimited (date_now w) (getClientIp (req_headers req)) None m),
        post_sendContactEmail_calls = [], post_fetch_calls = []\<rparr>"
  by (simp add: POST_def Let_def split_beta)

lemma POST_status_429:
  "(status (post_response (POST w req m)) = 429) =
     fst (isRateLimited (date_now w) (getClientIp (req_headers req)) None m)"
  by (simp add: POST_def Let_def split_beta json_response_def
      split: option.split sum.split prod.split)

lemma POST_429_response:
  "status (post_response (POST w req m)) = 429 \<Longrightarrow>
     post_response (POST w req m) =
       \<lparr>status = 429, resp_headers = [(''Retry-After'', ''60'')],
        resp_body = Failure_body msg_rate_limit ''RATE_LIMIT_EXCEEDED'' None\<rparr>"
  by (simp add: POST_status_429 POST_limited)

lemma POST_invalid_json:
  "\<not> fst (isRateLimited (date_now w) (getClientIp (req_headers req)) None m) \<Longrightarrow>
   req_body req = None \<Longrightarrow>
     POST w req m =
       \<lparr>post_response =
          \<lparr>status = 400, resp_headers = [],
           resp_body = Failure_body ''Invalid JSON body'' ''INVALID_JSON'' None\<rparr>,
        post_rateLimitMap = snd (isRateLimited (date_now w) (getClientIp (req_headers req)) None m),
        post_sendContactEmail_calls = [], post_fetch_calls = []\<rparr>"
  by (simp add: POST_def Let_def split_beta)

lemma POST_validation_error:
  "\<not> fst (isRateLimited (date_now w) (getClientIp (req_headers req)) None m) \<Longrightarrow>
   req_body req = Some body \<Longrightarrow>
   contactSchema (email_syntax w) (checks_on_other w) body = Inl issues \<Longrightarrow>
     POST w req m =
       \<lparr>post_response =
          \<lparr>status = 400, resp_headers = [],
           resp_body = Failure_body msg_invalid_data ''VALIDATION_ERROR''
             (Some (map (\<lambda>issue. \<lparr>entry_field = join_dot (issue_path issue),
                                     entry_message = issue_message issue\<rparr>) issues))\<rparr>,
        post_rateLimitMap = snd (isRateLimited (date_now w) (getClientIp (req_headers req)) None m),
        post_sendContactEmail_calls = [], post_fetch_calls = []\<rparr>"
  by (simp add: POST_def Let_def split_beta)

lemma POST_honeypot:
  "\<not> fst (isRateLimited (date_now w) (getClientIp (req_headers req)) None m) \<Longrightarrow>
   req_body req = Some body \<Longrightarrow>
   contactSchema (email_syntax w) (checks_on_other w) body = Inr data \<Longrightarrow>
   honeypot_filled (cf_honeypot data) \<Longrightarrow>
     POST w req m =
       \<lparr>post_response = json_response (Success_body msg_sent None),
        post_rateLimitMap = snd (isRateLimited (date_now w) (getClientIp (req_headers req)) None m),
        post_sendContactEmail_calls = [], post_fetch_calls = []\<rparr>"
  by (simp add: POST_def Let_def split_beta)

lemma POST_send:
  "\<not> fst (isRateLimited (date_now w) (getClientIp (req_headers req)) None m) \<Longrightarrow>
   req_body req = Some body \<Longrightarrow>
   contactSchema (email_syntax w) (checks_on_other w) body = Inr data \<Longrightarrow>
   \<not> honeypot_filled (cf_honeypot data) \<Longrightarrow>
   params = \<lparr>p_name = cf_name data, p_email = cf_email data, p_subject = cf_subject data,
              p_message = cf_message data, p_projectType = cf_projectType data,
              p_budget = cf_budget data\<rparr> \<Longrightarrow>
   sendContactEmail (process_env w) (render_email w) (fetch_impl w) params = (res, calls) \<Longrightarrow>
     POST w req m =
       \<lparr>post_response =
          (case res of
             Inl err \<Rightarrow> \<lparr>status = 500, resp_headers = [],
                          resp_body = Failure_body msg_server_error ''SERVER_ERROR'' None\<rparr>
           | Inr messageId \<Rightarrow> json_response (Success_body msg_sent (Some messageId))),
        post_rateLimitMap = snd (isRateLimited (date_now w) (getClientIp (req_headers req)) None m),
        post_sendContactEmail_calls = [params], post_fetch_calls = calls\<rparr>"
  by (simp add: POST_def Let_def split_beta split: sum.split)

lemma run_POST_limited:
  "map (\<lambda>r. status (post_response r) = 429) (run_POST reqs m) =
     run_events (map (\<lambda>x. (date_now (fst x), Check (getClientIp (req_headers (snd x))) None)) reqs) m"
proof (induction reqs arbitrary: m)
  case Nil
  then show ?case by simp
next
  case (Cons x reqs)
  obtain w req where x: "x = (w, req)" by (cases x)
  show ?case
    by (simp add: x Let_def split_beta POST_status_429 POST_rateLimitMap Cons.IH)
qed

lemma run_POST_elem:
  "r \<in> set (run_POST reqs m) \<Longrightarrow> \<exists>w req m'. r = POST w req m'"
proof (induction reqs arbitrary: m)
  case Nil
  then show ?case by simp
next
  case (Cons x reqs)
  obtain w req where x: "x = (w, req)" by (cases x)
  from Cons.prems Cons.IH show ?case
    by (auto simp: x Let_def)
qed

subsection \<open>The example inputs\<close>

lemma example_now: "date_now (example_platform t) = t"
  by (simp add: example_platform_def)

lemma example_request_ip: "getClientIp (req_headers (example_request props)) = ''203.0.113.7''"
  by (simp add: example_request_def getClientIp_def split_comma_first_def trim_def js_whitespace_def)

lemma malformed_request_ip: "getClientIp (req_headers malformed_request) = ''203.0.113.7''"
  by (simp add: malformed_request_def getClientIp_def split_comma_first_def trim_def js_whitespace_def)

lemma valid_payload_parse:
  "contactSchema (\<lambda>s. CHR ''@'' \<in> set s) (\<lambda>checks v. []) (JObject valid_payload) =
     Inr \<lparr>cf_name = ''Jo'', cf_email = ''a@b.com'', cf_subject = ''Hi there'',
          cf_message = replicate 20 CHR ''x'', cf_projectType = None, cf_budget = None,
          cf_honeypot = Some []\<rparr>"
  by (simp add: contactSchema_def valid_payload_def z_string_def z_email_def z_optional_def z_enum_def
      z_min_def z_max_def at_key_def Let_def)

lemma example_send:
  "sendContactEmail (process_env (example_platform t)) (render_email (example_platform t))
       (fetch_impl (example_platform t))
       \<lparr>p_name = ''Jo'', p_email = ''a@b.com'', p_subject = ''Hi there'',
        p_message = replicate 20 CHR ''x'', p_projectType = None, p_budget = None\<rparr> =
     (Inr ''<m1@relay>'',
      [\<lparr>fetch_url = BREVO_API_URL, fetch_api_key = ''xkeysib-1'',
        fetch_body =
          \<lparr>sender = \<lparr>contact_name = Some ''Portfolio Contact'', contact_email = ''site@example.org''\<rparr>,
           to = [\<lparr>contact_name = Some ''Portfolio Owner'', contact_email = ''site@example.org''\<rparr>],
           replyTo = Some \<lparr>contact_name = Some ''Jo'', contact_email = ''a@b.com''\<rparr>,
           subject = ''[Portfolio] Hi there'',
           htmlContent = ''<p>'' @ replicate 20 CHR ''x'' @ ''</p>'',
           textContent = replicate 20 CHR ''x''\<rparr>\<rparr>])"
  by (simp add: example_platform_def sendContactEmail_def sendBrevoEmail_def or_else_def truthy_def
      Let_def)

lemma POST_valid_sent:
  assumes "\<not> fst (isRateLimited t ''203.0.113.7'' None m)"
  shows "post_response (POST (example_platform t) (example_request valid_payload) m) =
       json_response (Success_body msg_sent (Some ''<m1@relay>''))
     \<and> length (post_sendContactEmail_calls (POST (example_platform t) (example_request valid_payload) m)) = 1
     \<and> length (post_fetch_calls (POST (example_platform t) (example_request valid_payload) m)) = 1"
proof -
  have nl: "\<not> fst (isRateLimited (date_now (example_platform t))
              (getClientIp (req_headers (example_request valid_payload))) None m)"
    using assms by (simp add: example_request_ip example_platform_def)
  have b: "req_body (example_request valid_payload) = Some (JObject valid_payload)"
    by (simp add: example_request_def)
  have v: "contactSchema (email_syntax (example_platform t)) (checks_on_other (example_platform t)) (JObject valid_payload) =
     Inr \<lparr>cf_name = ''Jo'', cf_email = ''a@b.com'', cf_subject = ''Hi there'',
          cf_message = replicate 20 CHR ''x'', cf_projectType = None, cf_budget = None,
          cf_honeypot = Some []\<rparr>"
    using valid_payload_parse by (simp add: example_platform_def)
  show ?thesis
    by (simp add: POST_send [OF nl b v _ _ example_send] honeypot_filled_def)
qed


subsection \<open>Case analysis of one run\<close>

lemma POST_cases [case_names limited invalid_json validation honeypot send]:
  obtains
    "fst (isRateLimited (date_now w) (getClientIp (req_headers req)) None m)"
    "POST w req m =
       \<lparr>post_response =
          \<lparr>status = 429, resp_headers = [(''Retry-After'', ''60'')],
           resp_body = Failure_body msg_rate_limit ''RATE_LIMIT_EXCEEDED'' None\<rparr>,
        post_rateLimitMap =
          snd (isRateLimited (date_now w) (getClientIp (req_headers req)) None m),
        post_sendContactEmail_calls = [], post_fetch_calls = []\<rparr>"
  | "\<not> fst (isRateLimited (date_now w) (getClientIp (req_headers req)) None m)" "req_body req = None"
    "POST w req m =
       \<lparr>post_response =
          \<lparr>status = 400, resp_headers = [],
           resp_body = Failure_body ''Invalid JSON body'' ''INVALID_JSON'' None\<rparr>,
        post_rateLimitMap =
          snd (isRateLimited (date_now w) (getClientIp (req_headers req)) None m),
        post_sendContactEmail_calls = [], post_fetch_calls = []\<rparr>"
  | body issues where "\<not> fst (isRateLimited (date_now w) (getClientIp (req_headers req)) None m)" "req_body req = Some body"
    "contactSchema (email_syntax w) (checks_on_other w) body = Inl issues"
    "POST w req m =
       \<lparr>post_response =
          \<lparr>status = 400, resp_headers = [],
           resp_body = Failure_body msg_invalid_data ''VALIDATION_ERROR''
             (Some (map (\<lambda>issue. \<lparr>entry_field = join_dot (issue_path issue),
                                     entry_message = issue_message issue\<rparr>) issues))\<rparr>,
        post_rateLimitMap =
          snd (isRateLimited (date_now w) (getClientIp (req_headers req)) None m),
        post_sendContactEmail_calls = [], post_fetch_calls = []\<rparr>"
  | body data where "\<not> fst (isRateLimited (date_now w) (getClientIp (req_headers req)) None m)" "req_body req = Some body"
    "contactSchema (email_syntax w) (checks_on_other w) body = Inr data" "honeypot_filled (cf_honeypot data)"
    "POST w req m =
       \<lparr>post_response = json_response (Success_body msg_sent None),
        post_rateLimitMap =
          snd (isRateLimited (date_now w) (getClientIp (req_headers req)) None m),
        post_sendContactEmail_calls = [], post_fetch_calls = []\<rparr>"
  | body data params res calls where "\<not> fst (isRateLimited (date_now w) (getClientIp (req_headers req)) None m)" "req_body req = Some body"
    "contactSchema (email_syntax w) (checks_on_other w) body = Inr data" "\<not> honeypot_filled (cf_honeypot data)"
    "params = \<lparr>p_name = cf_name data, p_email = cf_email data, p_subject = cf_subject data,
              p_message = cf_message data, p_projectType = cf_projectType data,
              p_budget = cf_budget data\<rparr>"
    "sendContactEmail (process_env w) (render_email w) (fetch_impl w) params = (res, calls)"
    "POST w req m =
       \<lparr>post_response =
          (case res of
             Inl err \<Rightarrow> \<lparr>status = 500, resp_headers = [],
                          resp_body = Failure_body msg_server_error ''SERVER_ERROR'' None\<rparr>
           | Inr messageId \<Rightarrow> json_response (Success_body msg_sent (Some messageId))),
        post_rateLimitMap =
          snd (isRateLimited (date_now w) (getClientIp (req_headers req)) None m),
        post_sendContactEmail_calls = [params], post_fetch_calls = calls\<rparr>"
proof (cases "fst (isRateLimited (date_now w) (getClientIp (req_headers req)) None m)")
  case True
  then show ?thesis
    using that(1) POST_limited [of w req m] by simp
next
  case nl: False
  show ?thesis
  proof (cases "req_body req")
    case None
    with nl show ?thesis
      using that(2) POST_invalid_json [of w req m] by simp
  next
    case (Some body)
    show ?thesis
    proof (cases "contactSchema (email_syntax w) (checks_on_other w) body")
      case (Inl issues)
      with nl Some show ?thesis
        using that(3) POST_validation_error [of w req m body issues] by simp
    next
      case (Inr data)
      show ?thesis
      proof (cases "honeypot_filled (cf_honeypot data)")
        case True
        with nl Some Inr show ?thesis
          using that(4) POST_honeypot [of w req m body data] by simp
      next
        case False
        obtain res calls where
          "sendContactEmail (process_env w) (render_email w) (fetch_impl w)
             \<lparr>p_name = cf_name data, p_email = cf_email data, p_subject = cf_subject data,
              p_message = cf_message data, p_projectType = cf_projectType data,
              p_budget = cf_budget data\<rparr> = (res, calls)"
          by (cases "sendContactEmail (process_env w) (render_email w) (fetch_impl w)
             \<lparr>p_name = cf_name data, p_email = cf_email data, p_subject = cf_subject data,
              p_message = cf_message data, p_projectType = cf_projectType data,
              p_budget = cf_budget data\<rparr>")
        with nl Some Inr False show ?thesis
          using that(5) POST_send [of w req m body data _ res calls] by simp
      qed
    qed
  qed
qed

lemma sendBrevoEmail_calls:
  "sendBrevoEmail e fetch requestBody = (res, calls) \<Longrightarrow>
     length calls \<le> 1 \<and> (isl res \<or> length calls = 1)"
  by (auto simp: sendBrevoEmail_def Let_def
      split: option.splits list.splits fetch_outcome.splits if_splits)

lemma sendContactEmail_calls:
  "sendContactEmail e render fetch params = (res, calls) \<Longrightarrow>
     length calls \<le> 1
     \<and> (\<not> isl res \<longrightarrow> length calls = (if NODE_ENV e = Some ''production'' then 1 else 0))"
  by (auto simp: sendContactEmail_def Let_def
      split: option.splits list.splits sum.splits prod.splits if_splits
      dest: sendBrevoEmail_calls)


subsection \<open>Requests in one window\<close>

lemma run_events_in_window:
  "m key = Some rec \<Longrightarrow> \<forall>t \<in> set ts. t \<le> resetTime rec \<Longrightarrow>
     run_events (map (\<lambda>t. (t, Check key None)) ts) m =
       map (\<lambda>i. 5 < count rec + 1 + int i) [0..<length ts]"
proof (induction ts arbitrary: m rec)
  case Nil
  then show ?case by simp
next
  case (Cons t ts)
  let ?m' = "snd (isRateLimited t key None m)"
  let ?rec' = "rec\<lparr>count := count rec + 1\<rparr>"
  from Cons.prems have le: "t \<le> resetTime rec" by simp
  with Cons.prems(1) have m': "?m' key = Some ?rec'"
    by (simp add: snd_isRateLimited_key)
  from Cons.prems(2) have rest: "\<forall>t \<in> set ts. t \<le> resetTime ?rec'" by simp
  from Cons.prems(1) le have f: "fst (isRateLimited t key None m) = (5 < count rec + 1)"
    by (auto simp: fst_isRateLimited option_maxRequests_def DEFAULT_MAX_REQUESTS_def)
  have ih: "run_events (map (\<lambda>t. (t, Check key None)) ts) ?m' =
       map (\<lambda>i. 5 < count ?rec' + 1 + int i) [0..<length ts]"
    using Cons.IH [of ?m' ?rec', OF m' rest] .
  have "map (\<lambda>i. 5 < count rec + 1 + int i) [0..<length (t # ts)] =
        (5 < count rec + 1) # map (\<lambda>i. 5 < count rec + 1 + int (Suc i)) [0..<length ts]"
    by (auto simp: map_upt_Suc simp del: upt_Suc)
  also have "\<dots> = (5 < count rec + 1) # map (\<lambda>i. 5 < count ?rec' + 1 + int i) [0..<length ts]"
    by auto
  finally show ?case using ih f
    by (simp add: split_beta Let_def del: upt_Suc)
qed

lemma run_events_fresh_window:
  assumes "m key = None \<or> (\<exists>rec. m key = Some rec \<and> t1 > resetTime rec)"
    and "\<forall>t \<in> set ts. t \<le> t1 + 60000"
  shows "run_events (map (\<lambda>t. (t, Check key None)) (t1 # ts)) m =
           map (\<lambda>k. 5 \<le> k) [0..<Suc (length ts)]"
proof -
  let ?m' = "snd (isRateLimited t1 key None m)"
  let ?rec = "\<lparr>count = 1, resetTime = t1 + 60000\<rparr>"
  from assms(1) have f: "fst (isRateLimited t1 key None m) = False"
    by (auto simp: fst_isRateLimited)
  from assms(1) have m': "?m' key = Some ?rec"
    by (auto simp: snd_isRateLimited_key option_windowMs_def DEFAULT_WINDOW_MS_def)
  from assms(2) have "\<forall>t \<in> set ts. t \<le> resetTime ?rec" by simp
  from run_events_in_window [of ?m' key ?rec ts, OF m' this]
  have "run_events (map (\<lambda>t. (t, Check key None)) ts) ?m' =
          map (\<lambda>i. 5 < count ?rec + 1 + int i) [0..<length ts]" .
  also have "\<dots> = map (\<lambda>i. 5 \<le> Suc i) [0..<length ts]"
    by (rule map_cong) auto
  finally have "run_events (map (\<lambda>t. (t, Check key None)) ts) ?m' =
          map (\<lambda>i. 5 \<le> Suc i) [0..<length ts]" .
  moreover have "map (\<lambda>k. 5 \<le> k) [0..<Suc (length ts)] = False # map (\<lambda>i. 5 \<le> Suc i) [0..<length ts]"
    by (simp add: map_upt_Suc del: upt_Suc)
  ultimately show ?thesis using f
    by (simp add: split_beta Let_def del: upt_Suc)
qed

text \<open>
  Claim C4. One client identifier sends requests in one window: the first request finds no
  record or an expired one, and no later request comes after the end of the window it
  opens (\<open>date_now w1 + 60000\<close>). Then the first five requests are not answered with
  the rate-limit error and every further one is, the sixth included: it gets status 429
  with the header \<open>Retry-After: 60\<close>. On the rate limiter itself: up to five calls in
  the window are not flagged, the call after the fifth is.
\<close>

theorem requests_in_one_window:
  assumes "\<forall>x \<in> set ((w1, req1) # rest). getClientIp (req_headers (snd x)) = ip"
    and "m ip = None \<or> (\<exists>rec. m ip = Some rec \<and> date_now w1 > resetTime rec)"
    and "\<forall>x \<in> set rest. date_now (fst x) \<le> date_now w1 + 60000"
  shows "map (\<lambda>r. status (post_response r) = 429) (run_POST ((w1, req1) # rest) m) =
           map (\<lambda>k. 5 \<le> k) [0..<Suc (length rest)]
         \<and> (\<forall>r \<in> set (run_POST ((w1, req1) # rest) m).
               status (post_response r) = 429 \<longrightarrow>
               post_response r =
                 \<lparr>status = 429, resp_headers = [(''Retry-After'', ''60'')],
                  resp_body = Failure_body msg_rate_limit ''RATE_LIMIT_EXCEEDED'' None\<rparr>)
         \<and> run_events (map (\<lambda>x. (date_now (fst x), Check ip None)) ((w1, req1) # rest)) m =
               map (\<lambda>k. 5 \<le> k) [0..<Suc (length rest)]"
proof (intro conjI ballI impI)
  let ?reqs = "(w1, req1) # rest"
  let ?ts = "map (\<lambda>x. date_now (fst x)) rest"
  from assms(3) have win: "\<forall>t \<in> set ?ts. t \<le> date_now w1 + 60000" by simp
  have ev: "map (\<lambda>x. (date_now (fst x), Check ip None)) ?reqs =
              map (\<lambda>t. (t, Check ip None)) (date_now w1 # ?ts)"
    by simp
  from assms(1) have ev': "map (\<lambda>x. (date_now (fst x), Check (getClientIp (req_headers (snd x))) None)) ?reqs =
              map (\<lambda>x. (date_now (fst x), Check ip None)) ?reqs"
    by (intro map_cong) auto
  have r: "run_events (map (\<lambda>t. (t, Check ip None)) (date_now w1 # ?ts)) m =
             map (\<lambda>k. 5 \<le> k) [0..<Suc (length ?ts)]"
    using run_events_fresh_window [of m ip "date_now w1" ?ts, OF assms(2) win] .
  show e: "run_events (map (\<lambda>x. (date_now (fst x), Check ip None)) ?reqs) m =
             map (\<lambda>k. 5 \<le> k) [0..<Suc (length rest)]"
    using r unfolding ev by simp
  show "map (\<lambda>r. status (post_response r) = 429) (run_POST ?reqs m) =
          map (\<lambda>k. 5 \<le> k) [0..<Suc (length rest)]"
    unfolding run_POST_limited ev' using e .
next
  fix r
  assume "r \<in> set (run_POST ((w1, req1) # rest) m)" and s: "status (post_response r) = 429"
  then obtain w req m' where "r = POST w req m'"
    using run_POST_elem by blast
  with s show "post_response r =
       \<lparr>status = 429, resp_headers = [(''Retry-After'', ''60'')],
        resp_body = Failure_body msg_rate_limit ''RATE_LIMIT_EXCEEDED'' None\<rparr>"
    by (simp add: POST_429_response)
qed

theorem requests_in_one_window_witness:
  "map (\<lambda>x. getClientIp (req_headers (snd x))) six_requests =
        [''203.0.113.7'', ''203.0.113.7'', ''203.0.113.7'', ''203.0.113.7'', ''203.0.113.7'',
         ''203.0.113.7'']
   \<and> map (\<lambda>x. date_now (fst x)) six_requests = [1000, 11000, 21000, 31000, 41000, 61000]
   \<and> map (\<lambda>r. status (post_response r) = 429) (run_POST six_requests Map.empty) =
        [False, False, False, False, False, True]
   \<and> map (\<lambda>r. status (post_response r)) (run_POST six_requests Map.empty) =
        [200, 200, 200, 200, 200, 429]
   \<and> resp_headers (post_response (last (run_POST six_requests Map.empty))) = [(''Retry-After'', ''60'')]"
proof -
  let ?rest = "map (\<lambda>t. (example_platform t, example_request valid_payload)) [11000, 21000, 31000, 41000, 61000]"
  have six: "six_requests = (example_platform 1000, example_request valid_payload) # ?rest"
    by (simp add: six_requests_def)
  have h1: "\<forall>x \<in> set ((example_platform 1000, example_request valid_payload) # ?rest).
              getClientIp (req_headers (snd x)) = ''203.0.113.7''"
    by (simp add: example_request_ip)
  have h2: "Map.empty ''203.0.113.7'' = None \<or>
              (\<exists>rec. Map.empty ''203.0.113.7'' = Some rec \<and> date_now (example_platform 1000) > resetTime rec)"
    by simp
  have h3: "\<forall>x \<in> set ?rest. date_now (fst x) \<le> date_now (example_platform 1000) + 60000"
    by (simp add: example_now)
  note main = requests_in_one_window [OF h1 h2 h3]
  have flags: "map (\<lambda>r. status (post_response r) = 429) (run_POST six_requests Map.empty) =
        [False, False, False, False, False, True]"
    using main by (simp add: six)
  have l: "last (run_POST six_requests Map.empty) \<in> set (run_POST six_requests Map.empty)"
    by (simp add: six Let_def)
  from flags have "status (post_response (last (run_POST six_requests Map.empty))) = 429"
    by (simp add: six Let_def)
  with main l have hdr: "resp_headers (post_response (last (run_POST six_requests Map.empty))) = [(''Retry-After'', ''60'')]"
    unfolding six by fastforce
  have st: "map (\<lambda>r. status (post_response r)) (run_POST six_requests Map.empty) =
        [200, 200, 200, 200, 200, 429]"
    by (simp add: six Let_def POST_rateLimitMap POST_valid_sent POST_limited example_now example_request_ip
        fst_isRateLimited snd_isRateLimited_key option_maxRequests_def option_windowMs_def
        DEFAULT_MAX_REQUESTS_def DEFAULT_WINDOW_MS_def json_response_def)
  have ips: "map (\<lambda>x. getClientIp (req_headers (snd x))) six_requests =
        [''203.0.113.7'', ''203.0.113.7'', ''203.0.113.7'', ''203.0.113.7'', ''203.0.113.7'',
         ''203.0.113.7'']"
    by (simp add: six_requests_def example_request_ip)
  have times: "map (\<lambda>x. date_now (fst x)) six_requests =
                 [1000, 11000, 21000, 31000, 41000, 61000]"
    by (simp add: six_requests_def example_now)
  from ips times flags st hdr show ?thesis
    by blast
qed


subsection \<open>Malformed bodies\<close>

text \<open>
  Claim C5, as amended. The rate check comes before the body is read. A request whose body
  is not well-formed JSON is answered with status 400 and code \<open>INVALID_JSON\<close> when it
  is not rate-limited, whatever the schema and the rest of the platform are, and with the
  rate-limit error 429 when it is rate-limited; no email is sent either way.
\<close>

theorem malformed_body_after_rate_check:
  "req_body req = None \<Longrightarrow>
     post_response (POST w req m) =
       (if fst (isRateLimited (date_now w) (getClientIp (req_headers req)) None m)
        then \<lparr>status = 429, resp_headers = [(''Retry-After'', ''60'')],
              resp_body = Failure_body msg_rate_limit ''RATE_LIMIT_EXCEEDED'' None\<rparr>
        else \<lparr>status = 400, resp_headers = [],
              resp_body = Failure_body ''Invalid JSON body'' ''INVALID_JSON'' None\<rparr>)
     \<and> post_sendContactEmail_calls (POST w req m) = []
     \<and> post_fetch_calls (POST w req m) = []"
  by (cases "fst (isRateLimited (date_now w) (getClientIp (req_headers req)) None m)")
    (simp_all add: POST_limited POST_invalid_json)

theorem malformed_body_after_rate_check_witness:
  "req_body malformed_request = None
   \<and> post_response (POST (example_platform 2000) malformed_request Map.empty) =
       \<lparr>status = 400, resp_headers = [],
        resp_body = Failure_body ''Invalid JSON body'' ''INVALID_JSON'' None\<rparr>
   \<and> post_response (POST (example_platform 2000) malformed_request exhausted_window) =
       \<lparr>status = 429, resp_headers = [(''Retry-After'', ''60'')],
        resp_body = Failure_body msg_rate_limit ''RATE_LIMIT_EXCEEDED'' None\<rparr>"
  using malformed_body_after_rate_check [of malformed_request "example_platform 2000" Map.empty]
    malformed_body_after_rate_check [of malformed_request "example_platform 2000" exhausted_window]
  by (simp add: malformed_request_ip example_now fst_isRateLimited exhausted_window_def
      option_maxRequests_def DEFAULT_MAX_REQUESTS_def)
    (simp add: malformed_request_def)

text \<open>
  The claim as it was stated, "independent of the current rate-limit state", fails on a
  client that has used up its window: the malformed request gets 429, not 400.
\<close>

theorem malformed_body_rate_limited_counterexample:
  "req_body malformed_request = None
   \<and> post_response (POST (example_platform 2000) malformed_request exhausted_window) =
       \<lparr>status = 429, resp_headers = [(''Retry-After'', ''60'')],
        resp_body = Failure_body msg_rate_limit ''RATE_LIMIT_EXCEEDED'' None\<rparr>
   \<and> status (post_response (POST (example_platform 2000) malformed_request exhausted_window)) \<noteq> 400"
proof -
  have "fst (isRateLimited (date_now (example_platform 2000)) (getClientIp (req_headers malformed_request))
          None exhausted_window)"
    by (simp add: malformed_request_ip example_now fst_isRateLimited exhausted_window_def
        option_maxRequests_def DEFAULT_MAX_REQUESTS_def)
  then show ?thesis
    by (simp add: POST_limited malformed_request_def)
qed


subsection \<open>More on the example inputs\<close>

lemma not_limited_at_empty:
  "\<not> fst (isRateLimited (date_now (example_platform t))
            (getClientIp (req_headers (example_request props))) None Map.empty)"
  by (simp add: fst_isRateLimited)

lemma example_body: "req_body (example_request props) = Some (JObject props)"
  by (simp add: example_request_def)

lemma example_email_syntax:
  "email_syntax (example_platform t) = (\<lambda>s. CHR ''@'' \<in> set s)"
  "checks_on_other (example_platform t) = (\<lambda>checks v. [])"
  by (simp_all add: example_platform_def)

lemma honeypot_payload_parse:
  "contactSchema (\<lambda>s. CHR ''@'' \<in> set s) (\<lambda>checks v. []) (JObject honeypot_payload) =
     Inl [\<lparr>issue_code = too_big, issue_path = [''honeypot''],
           issue_message = Message msg_honeypot\<rparr>]"
  by (simp add: contactSchema_def honeypot_payload_def z_string_def z_email_def z_optional_def
      z_enum_def z_min_def z_max_def at_key_def Let_def)

lemma short_message_carries: "carries (JObject short_message_payload) short_message_submission"
  by (simp add: carries_def short_message_payload_def short_message_submission_def)

lemma short_message_violation:
  "violated_constraints (\<lambda>s. CHR ''@'' \<in> set s) short_message_submission = [''message'']"
  by (simp add: violated_constraints_def short_message_submission_def)

lemma POST_development_sent:
  "POST (development_platform t) (example_request valid_payload) Map.empty =
     \<lparr>post_response = json_response (Success_body msg_sent (Some ''dev-console'')),
      post_rateLimitMap = snd (isRateLimited t ''203.0.113.7'' None Map.empty),
      post_sendContactEmail_calls =
        [\<lparr>p_name = ''Jo'', p_email = ''a@b.com'', p_subject = ''Hi there'',
          p_message = replicate 20 CHR ''x'', p_projectType = None, p_budget = None\<rparr>],
      post_fetch_calls = []\<rparr>"
proof -
  have n: "date_now (development_platform t) = t"
    by (simp add: development_platform_def example_platform_def)
  have l: "\<not> fst (isRateLimited (date_now (development_platform t))
            (getClientIp (req_headers (example_request valid_payload))) None Map.empty)"
    by (simp add: fst_isRateLimited)
  have v: "contactSchema (email_syntax (development_platform t))
             (checks_on_other (development_platform t)) (JObject valid_payload) =
     Inr \<lparr>cf_name = ''Jo'', cf_email = ''a@b.com'', cf_subject = ''Hi there'',
          cf_message = replicate 20 CHR ''x'', cf_projectType = None, cf_budget = None,
          cf_honeypot = Some []\<rparr>"
    using valid_payload_parse by (simp add: development_platform_def example_platform_def)
  have s: "sendContactEmail (process_env (development_platform t))
       (render_email (development_platform t)) (fetch_impl (development_platform t))
       \<lparr>p_name = ''Jo'', p_email = ''a@b.com'', p_subject = ''Hi there'',
        p_message = replicate 20 CHR ''x'', p_projectType = None, p_budget = None\<rparr> =
     (Inr ''dev-console'', [])"
    by (simp add: sendContactEmail_def development_platform_def development_env_without_key_def)
  show ?thesis
    by (simp add: POST_send [OF l example_body v _ _ s] honeypot_filled_def n example_request_ip)
qed


subsection \<open>Effects of one run\<close>

text \<open>
  Claim C8, as amended. Every run of the handler changes the rate-limit map, whatever the
  outcome of the request: the record of the derived client identifier is created afresh
  or its count is incremented, and no other record is touched. A run that answers with
  the success response and a message identifier has called \<open>sendContactEmail\<close> exactly
  once; this is exactly one outbound call to the provider in production mode and none in
  any other mode, where the transport is bypassed. A request whose honeypot property is a
  non-empty string leads to no call of \<open>sendContactEmail\<close> and to no outbound call.
\<close>

theorem POST_effects:
  "post_rateLimitMap (POST w req m) \<noteq> m
   \<and> post_rateLimitMap (POST w req m) (getClientIp (req_headers req)) =
       Some (case m (getClientIp (req_headers req)) of
               None \<Rightarrow> \<lparr>count = 1, resetTime = date_now w + 60000\<rparr>
             | Some rec \<Rightarrow>
                 if date_now w > resetTime rec
                 then \<lparr>count = 1, resetTime = date_now w + 60000\<rparr>
                 else rec\<lparr>count := count rec + 1\<rparr>)
   \<and> (\<forall>key. key \<noteq> getClientIp (req_headers req) \<longrightarrow>
         post_rateLimitMap (POST w req m) key = m key)
   \<and> ((\<exists>messageId. post_response (POST w req m) =
                       json_response (Success_body msg_sent (Some messageId))) \<longrightarrow>
        length (post_sendContactEmail_calls (POST w req m)) = 1
        \<and> length (post_fetch_calls (POST w req m)) =
            (if NODE_ENV (process_env w) = Some ''production'' then 1 else 0))
   \<and> ((\<exists>body h. req_body req = Some body \<and> body_honeypot body = Some h \<and> h \<noteq> []) \<longrightarrow>
        post_sendContactEmail_calls (POST w req m) = []
        \<and> post_fetch_calls (POST w req m) = [])"
proof (intro conjI)
  let ?ip = "getClientIp (req_headers req)"
  let ?m' = "post_rateLimitMap (POST w req m)"
  show key: "?m' ?ip =
       Some (case m ?ip of
               None \<Rightarrow> \<lparr>count = 1, resetTime = date_now w + 60000\<rparr>
             | Some rec \<Rightarrow>
                 if date_now w > resetTime rec
                 then \<lparr>count = 1, resetTime = date_now w + 60000\<rparr>
                 else rec\<lparr>count := count rec + 1\<rparr>)"
    by (simp add: POST_rateLimitMap snd_isRateLimited_key option_windowMs_def DEFAULT_WINDOW_MS_def
        split: option.split)
  have "?m' ?ip \<noteq> m ?ip"
  proof (cases "m ?ip")
    case None
    then show ?thesis by (simp add: key)
  next
    case (Some rec)
    show ?thesis
    proof (cases "date_now w > resetTime rec")
      case True
      then have "\<lparr>count = 1, resetTime = date_now w + 60000\<rparr> \<noteq> rec"
        by (cases rec) auto
      with Some True show ?thesis by (simp add: key)
    next
      case False
      have "rec\<lparr>count := count rec + 1\<rparr> \<noteq> rec"
        by (cases rec) auto
      with Some False show ?thesis by (simp add: key)
    qed
  qed
  then show "?m' \<noteq> m" by auto
  show "\<forall>key. key \<noteq> ?ip \<longrightarrow> ?m' key = m key"
    by (simp add: POST_rateLimitMap snd_isRateLimited_other)
  show "(\<exists>messageId. post_response (POST w req m) =
                       json_response (Success_body msg_sent (Some messageId))) \<longrightarrow>
        length (post_sendContactEmail_calls (POST w req m)) = 1
        \<and> length (post_fetch_calls (POST w req m)) =
            (if NODE_ENV (process_env w) = Some ''production'' then 1 else 0)"
  proof (cases w req m rule: POST_cases)
    case (send body data params res calls)
    from sendContactEmail_calls [OF send(6)] send(7) show ?thesis
      by (auto simp: json_response_def split: sum.splits)
  qed (auto simp: json_response_def)
  show "(\<exists>body h. req_body req = Some body \<and> body_honeypot body = Some h \<and> h \<noteq> []) \<longrightarrow>
        post_sendContactEmail_calls (POST w req m) = []
        \<and> post_fetch_calls (POST w req m) = []"
  proof (cases w req m rule: POST_cases)
    case (send body data params res calls)
    show ?thesis
    proof (intro impI)
      assume "\<exists>body h. req_body req = Some body \<and> body_honeypot body = Some h \<and> h \<noteq> []"
      with send(2) obtain h where "body_honeypot body = Some h" "h \<noteq> []" by auto
      with contactSchema_Inr_honeypot [OF send(3)] have "honeypot_filled (cf_honeypot data)"
        by (cases h) (simp_all add: honeypot_filled_def)
      with send(4) show "post_sendContactEmail_calls (POST w req m) = []
        \<and> post_fetch_calls (POST w req m) = []" by simp
    qed
  qed auto
qed

theorem POST_effects_witness:
  "post_rateLimitMap (POST (example_platform 1000) (example_request valid_payload) Map.empty)
       ''203.0.113.7'' = Some \<lparr>count = 1, resetTime = 61000\<rparr>
   \<and> post_rateLimitMap (POST (example_platform 1000) (example_request valid_payload) Map.empty)
       ''198.51.100.9'' = None
   \<and> post_response (POST (example_platform 1000) (example_request valid_payload) Map.empty) =
       json_response (Success_body msg_sent (Some ''<m1@relay>''))
   \<and> length (post_sendContactEmail_calls
         (POST (example_platform 1000) (example_request valid_payload) Map.empty)) = 1
   \<and> length (post_fetch_calls
         (POST (example_platform 1000) (example_request valid_payload) Map.empty)) = 1
   \<and> post_response (POST (development_platform 1000) (example_request valid_payload) Map.empty) =
       json_response (Success_body msg_sent (Some ''dev-console''))
   \<and> length (post_sendContactEmail_calls
         (POST (development_platform 1000) (example_request valid_payload) Map.empty)) = 1
   \<and> length (post_fetch_calls
         (POST (development_platform 1000) (example_request valid_payload) Map.empty)) = 0
   \<and> body_honeypot (JObject honeypot_payload) = Some ''bot''
   \<and> post_sendContactEmail_calls
         (POST (example_platform 1000) (example_request honeypot_payload) Map.empty) = []
   \<and> post_fetch_calls
         (POST (example_platform 1000) (example_request honeypot_payload) Map.empty) = []"
proof -
  have l: "\<not> fst (isRateLimited 1000 ''203.0.113.7'' None Map.empty)"
    by (simp add: fst_isRateLimited)
  have r: "post_response (POST (example_platform 1000) (example_request valid_payload) Map.empty) =
       json_response (Success_body msg_sent (Some ''<m1@relay>''))"
    using POST_valid_sent [OF l] by simp
  have r': "post_response
        (POST (development_platform 1000) (example_request valid_payload) Map.empty) =
       json_response (Success_body msg_sent (Some ''dev-console''))"
    by (simp add: POST_development_sent)
  have h: "body_honeypot (JObject honeypot_payload) = Some ''bot''"
    by (simp add: body_honeypot_def honeypot_payload_def)
  have prod: "NODE_ENV (process_env (example_platform 1000)) = Some ''production''"
    by (simp add: example_platform_def)
  have dev: "NODE_ENV (process_env (development_platform 1000)) \<noteq> Some ''production''"
    by (simp add: development_platform_def development_env_without_key_def)
  note e1 = POST_effects [of "example_platform 1000" "example_request valid_payload" Map.empty]
  note e2 = POST_effects [of "example_platform 1000" "example_request honeypot_payload" Map.empty]
  note e3 = POST_effects [of "development_platform 1000" "example_request valid_payload"
    Map.empty]
  note other = e1 [THEN conjunct2, THEN conjunct2, THEN conjunct1]
  note sent = e1 [THEN conjunct2, THEN conjunct2, THEN conjunct2, THEN conjunct1]
  note sent' = e3 [THEN conjunct2, THEN conjunct2, THEN conjunct2, THEN conjunct1]
  note filled = e2 [THEN conjunct2, THEN conjunct2, THEN conjunct2, THEN conjunct2]
  from e1 [THEN conjunct2, THEN conjunct1] have a: "post_rateLimitMap
      (POST (example_platform 1000) (example_request valid_payload) Map.empty) ''203.0.113.7'' =
      Some \<lparr>count = 1, resetTime = 61000\<rparr>"
    by (simp add: example_request_ip example_now)
  from other [THEN spec, of "''198.51.100.9''"] have b: "post_rateLimitMap
      (POST (example_platform 1000) (example_request valid_payload) Map.empty) ''198.51.100.9'' =
      None"
    by (simp add: example_request_ip)
  from sent r prod have c: "length (post_sendContactEmail_calls
         (POST (example_platform 1000) (example_request valid_payload) Map.empty)) = 1
     \<and> length (post_fetch_calls
         (POST (example_platform 1000) (example_request valid_payload) Map.empty)) = 1"
    by auto
  from sent' r' dev have c': "length (post_sendContactEmail_calls
         (POST (development_platform 1000) (example_request valid_payload) Map.empty)) = 1
     \<and> length (post_fetch_calls
         (POST (development_platform 1000) (example_request valid_payload) Map.empty)) = 0"
    by auto
  from filled h have d: "post_sendContactEmail_calls
         (POST (example_platform 1000) (example_request honeypot_payload) Map.empty) = []
     \<and> post_fetch_calls
         (POST (example_platform 1000) (example_request honeypot_payload) Map.empty) = []"
    by (simp add: example_body)
  from a b r c r' c' h d show ?thesis by simp
qed

text \<open>
  The claim as it was stated, exactly one outbound dispatch on the successful path, fails
  outside production: the valid payload is answered with success and the identifier
  "dev-console", and no outbound call is made.
\<close>

theorem success_without_dispatch_counterexample:
  "post_response (POST (development_platform 1000) (example_request valid_payload) Map.empty) =
     \<lparr>status = 200, resp_headers = [],
      resp_body = Success_body msg_sent (Some ''dev-console'')\<rparr>
   \<and> post_fetch_calls
       (POST (development_platform 1000) (example_request valid_payload) Map.empty) = []"
  by (simp add: POST_development_sent json_response_def)


subsection \<open>The honeypot\<close>

text \<open>
  Claim C2 says that a non-empty honeypot leaves the validation of an otherwise valid
  submission successful, the spam being signalled by the handler alone. The schema does
  otherwise: its honeypot property is \<^verbatim>\<open>z.string().max(0, ...).optional()\<close>, so the
  valid payload with the honeypot "bot" fails validation with the one issue on
  \<open>honeypot\<close>, and the handler answers 400 \<open>VALIDATION_ERROR\<close> naming the honeypot field
  instead of reaching its honeypot branch.
\<close>

theorem filled_honeypot_fails_validation:
  "contactSchema (\<lambda>s. CHR ''@'' \<in> set s) (\<lambda>checks v. []) (JObject honeypot_payload) =
     Inl [\<lparr>issue_code = too_big, issue_path = [''honeypot''],
           issue_message = Message msg_honeypot\<rparr>]
   \<and> POST (example_platform 1000) (example_request honeypot_payload) Map.empty =
       \<lparr>post_response =
          \<lparr>status = 400, resp_headers = [],
           resp_body = Failure_body msg_invalid_data ''VALIDATION_ERROR''
             (Some [\<lparr>entry_field = ''honeypot'', entry_message = Message msg_honeypot\<rparr>])\<rparr>,
        post_rateLimitMap = [''203.0.113.7'' \<mapsto> \<lparr>count = 1, resetTime = 61000\<rparr>],
        post_sendContactEmail_calls = [], post_fetch_calls = []\<rparr>"
proof -
  have p: "contactSchema (email_syntax (example_platform 1000)) (checks_on_other (example_platform 1000)) (JObject honeypot_payload) =
     Inl [\<lparr>issue_code = too_big, issue_path = [''honeypot''],
           issue_message = Message msg_honeypot\<rparr>]"
    by (simp add: example_email_syntax honeypot_payload_parse)
  have m: "snd (isRateLimited 1000 ''203.0.113.7'' None Map.empty) =
             [''203.0.113.7'' \<mapsto> \<lparr>count = 1, resetTime = 61000\<rparr>]"
    by (simp add: isRateLimited_def option_windowMs_def DEFAULT_WINDOW_MS_def)
  show ?thesis
    using POST_validation_error [OF not_limited_at_empty example_body p]
    by (simp add: honeypot_payload_parse example_now example_request_ip m)
qed

text \<open>
  Claim C3 says that a request that is not rate-limited, whose body is JSON and whose
  honeypot is non-empty, is answered with the success response and without an email.
  No email is sent, but the answer is not the success response: the client's third
  request in its window, with every field valid, both categories given and a link in the
  honeypot, fails validation on \<open>honeypot\<close> alone and is answered 400
  \<open>VALIDATION_ERROR\<close>. The handler's honeypot branch, which would answer with success, is
  not reached.
\<close>

theorem filled_honeypot_answered_with_validation_error:
  "\<not> fst (isRateLimited (date_now (example_platform 5000))
            (getClientIp (req_headers (example_request spam_payload))) None open_window)
   \<and> req_body (example_request spam_payload) = Some (JObject spam_payload)
   \<and> body_honeypot (JObject spam_payload) = Some ''https://spam.example''
   \<and> POST (example_platform 5000) (example_request spam_payload) open_window =
       \<lparr>post_response =
          \<lparr>status = 400, resp_headers = [],
           resp_body = Failure_body msg_invalid_data ''VALIDATION_ERROR''
             (Some [\<lparr>entry_field = ''honeypot'', entry_message = Message msg_honeypot\<rparr>])\<rparr>,
        post_rateLimitMap = [''203.0.113.7'' \<mapsto> \<lparr>count = 3, resetTime = 61000\<rparr>],
        post_sendContactEmail_calls = [], post_fetch_calls = []\<rparr>"
proof -
  have l: "\<not> fst (isRateLimited (date_now (example_platform 5000))
            (getClientIp (req_headers (example_request spam_payload))) None open_window)"
    by (simp add: example_now example_request_ip fst_isRateLimited open_window_def
        option_maxRequests_def DEFAULT_MAX_REQUESTS_def)
  have h: "body_honeypot (JObject spam_payload) = Some ''https://spam.example''"
    by (simp add: body_honeypot_def spam_payload_def)
  have p: "contactSchema (email_syntax (example_platform 5000))
             (checks_on_other (example_platform 5000)) (JObject spam_payload) =
     Inl [\<lparr>issue_code = too_big, issue_path = [''honeypot''],
           issue_message = Message msg_honeypot\<rparr>]"
    by (simp add: example_email_syntax contactSchema_def spam_payload_def z_string_def
        z_email_def z_optional_def z_enum_def z_min_def z_max_def at_key_def Let_def
        projectTypes_def budgetRanges_def)
  have m: "snd (isRateLimited 5000 ''203.0.113.7'' None open_window) =
             [''203.0.113.7'' \<mapsto> \<lparr>count = 3, resetTime = 61000\<rparr>]"
    by (simp add: isRateLimited_def open_window_def)
  from POST_validation_error [OF l example_body p] l h
  show ?thesis
    by (simp add: example_body example_now example_request_ip m)
qed


subsection \<open>Validation errors\<close>

text \<open>
  Claim C9, as amended. The rate check comes before validation. A submission that is not
  rate-limited, whose honeypot is absent or empty and which violates exactly one field
  constraint of the data model is answered 400 with code \<open>VALIDATION_ERROR\<close> and a list
  of exactly one error, which names the violated field. With a message of length 5 the
  one error is on \<open>message\<close> and carries the text of the minimum length. Nothing is said
  here of a submission with a filled honeypot.
\<close>

theorem single_violation_single_error:
  assumes "\<not> fst (isRateLimited (date_now w) (getClientIp (req_headers req)) None m)"
    and "req_body req = Some body"
    and "carries body s"
    and "s_honeypot s = None \<or> s_honeypot s = Some []"
    and "violated_constraints (email_syntax w) s = [f]"
  shows "(\<exists>msg. post_response (POST w req m) =
            \<lparr>status = 400, resp_headers = [],
             resp_body = Failure_body msg_invalid_data ''VALIDATION_ERROR''
               (Some [\<lparr>entry_field = f, entry_message = msg\<rparr>])\<rparr>)
         \<and> (length (s_message s) = 5 \<longrightarrow>
              post_response (POST w req m) =
                \<lparr>status = 400, resp_headers = [],
                 resp_body = Failure_body msg_invalid_data ''VALIDATION_ERROR''
                   (Some [\<lparr>entry_field = ''message'',
                           entry_message = Message msg_message_min\<rparr>])\<rparr>)"
proof -
  obtain issues where parse: "contactSchema (email_syntax w) (checks_on_other w) body = Inl issues"
    and paths: "map issue_path issues = [[f]]"
    and short: "length (s_message s) < 20 \<Longrightarrow>
                  filter (\<lambda>i. issue_path i = [''message'']) issues =
                    [\<lparr>issue_code = too_small, issue_path = [''message''],
                      issue_message = Message msg_message_min\<rparr>]"
    using contactSchema_on_submission [OF assms(3,4), of "email_syntax w" "checks_on_other w"]
      assms(5)
    by (cases "contactSchema (email_syntax w) (checks_on_other w) body") simp_all
  from paths obtain i where one: "issues = [i]" and path: "issue_path i = [f]"
    by auto
  have resp: "post_response (POST w req m) =
            \<lparr>status = 400, resp_headers = [],
             resp_body = Failure_body msg_invalid_data ''VALIDATION_ERROR''
               (Some [\<lparr>entry_field = f, entry_message = issue_message i\<rparr>])\<rparr>"
    using POST_validation_error [OF assms(1,2) parse] by (simp add: one path)
  have "i = \<lparr>issue_code = too_small, issue_path = [''message''],
             issue_message = Message msg_message_min\<rparr>"
    if "length (s_message s) = 5"
    using short that unfolding one by (simp split: if_splits)
  with resp path show ?thesis by auto
qed

theorem single_violation_single_error_witness:
  "carries (JObject short_message_payload) short_message_submission
   \<and> s_honeypot short_message_submission = Some []
   \<and> violated_constraints (email_syntax (example_platform 1000)) short_message_submission =
       [''message'']
   \<and> length (s_message short_message_submission) = 5
   \<and> post_response
       (POST (example_platform 1000) (example_request short_message_payload) Map.empty) =
       \<lparr>status = 400, resp_headers = [],
        resp_body = Failure_body msg_invalid_data ''VALIDATION_ERROR''
          (Some [\<lparr>entry_field = ''message'', entry_message = Message msg_message_min\<rparr>])\<rparr>"
proof -
  have v: "violated_constraints (email_syntax (example_platform 1000)) short_message_submission =
       [''message'']"
    by (simp add: example_email_syntax short_message_violation)
  have five: "length (s_message short_message_submission) = 5"
    by (simp add: short_message_submission_def)
  have e: "s_honeypot short_message_submission = Some []"
    by (simp add: short_message_submission_def)
  then have u: "s_honeypot short_message_submission = None
      \<or> s_honeypot short_message_submission = Some []"
    by simp
  from single_violation_single_error
         [OF not_limited_at_empty example_body short_message_carries u v] five
    short_message_carries v e
  show ?thesis by simp
qed

text \<open>
  The claim as it was stated, for every submission, fails on a client that has used up
  its window: the submission with the message of length 5 gets 429 and no list of errors.
\<close>

theorem single_violation_rate_limited_counterexample:
  "req_body (example_request short_message_payload) = Some (JObject short_message_payload)
   \<and> carries (JObject short_message_payload) short_message_submission
   \<and> violated_constraints (email_syntax (example_platform 2000)) short_message_submission =
       [''message'']
   \<and> post_response
       (POST (example_platform 2000) (example_request short_message_payload) exhausted_window) =
       \<lparr>status = 429, resp_headers = [(''Retry-After'', ''60'')],
        resp_body = Failure_body msg_rate_limit ''RATE_LIMIT_EXCEEDED'' None\<rparr>"
proof -
  have "fst (isRateLimited (date_now (example_platform 2000))
          (getClientIp (req_headers (example_request short_message_payload))) None
          exhausted_window)"
    by (simp add: example_request_ip example_now fst_isRateLimited exhausted_window_def
        option_maxRequests_def DEFAULT_MAX_REQUESTS_def)
  then show ?thesis
    by (simp add: POST_limited example_body short_message_carries example_email_syntax
        short_message_violation)
qed


section \<open>Properties of the email transport\<close>

text \<open>
  Claim C6, as amended. \<open>sendBrevoEmail\<close> fails with the error "BREVO_API_KEY is not
  defined in environment variables" whenever the key is undefined or empty, before any
  outbound call. In production mode \<open>sendContactEmail\<close> then fails as well, without an
  outbound call: with the error of the first missing value (sender email, then API key),
  unless the rendering of the content failed first; a missing sender email fails it in
  the same way. In any other mode \<open>sendContactEmail\<close> checks no configuration and
  returns the identifier "dev-console".
\<close>

theorem missing_api_key_fails_in_production:
  "(\<not> truthy (BREVO_API_KEY e) \<longrightarrow>
      sendBrevoEmail e fetch requestBody =
        (Inl (Error ''BREVO_API_KEY is not defined in environment variables''), []))
   \<and> (NODE_ENV e = Some ''production'' \<and> \<not> truthy (BREVO_API_KEY e) \<longrightarrow>
        (\<exists>err. sendContactEmail e render fetch params = (Inl err, [])
           \<and> (err = Error ''BREVO_SENDER_EMAIL is not defined in environment variables''
                \<or> err = Error ''BREVO_API_KEY is not defined in environment variables''
                \<or> render params = Inl err)))
   \<and> (NODE_ENV e = Some ''production'' \<and> \<not> truthy (BREVO_SENDER_EMAIL e) \<longrightarrow>
        sendContactEmail e render fetch params =
          (Inl (Error ''BREVO_SENDER_EMAIL is not defined in environment variables''), []))
   \<and> (NODE_ENV e \<noteq> Some ''production'' \<longrightarrow>
        sendContactEmail e render fetch params = (Inr ''dev-console'', []))"
proof (intro conjI impI)
  assume "\<not> truthy (BREVO_API_KEY e)"
  then show "sendBrevoEmail e fetch requestBody =
        (Inl (Error ''BREVO_API_KEY is not defined in environment variables''), [])"
    by (simp add: sendBrevoEmail_def truthy_def split: option.splits list.splits)
next
  assume a: "NODE_ENV e = Some ''production'' \<and> \<not> truthy (BREVO_API_KEY e)"
  then have nokey: "\<And>b. sendBrevoEmail e fetch b =
        (Inl (Error ''BREVO_API_KEY is not defined in environment variables''), [])"
    by (simp add: sendBrevoEmail_def truthy_def split: option.splits list.splits)
  from a show "\<exists>err. sendContactEmail e render fetch params = (Inl err, [])
           \<and> (err = Error ''BREVO_SENDER_EMAIL is not defined in environment variables''
                \<or> err = Error ''BREVO_API_KEY is not defined in environment variables''
                \<or> render params = Inl err)"
    by (auto simp: sendContactEmail_def Let_def nokey or_else_def truthy_def
        split: option.splits list.splits sum.splits)
next
  assume "NODE_ENV e = Some ''production'' \<and> \<not> truthy (BREVO_SENDER_EMAIL e)"
  then show "sendContactEmail e render fetch params =
          (Inl (Error ''BREVO_SENDER_EMAIL is not defined in environment variables''), [])"
    by (simp add: sendContactEmail_def Let_def truthy_def split: option.splits list.splits)
next
  assume "NODE_ENV e \<noteq> Some ''production''"
  then show "sendContactEmail e render fetch params = (Inr ''dev-console'', [])"
    by (simp add: sendContactEmail_def)
qed

theorem missing_api_key_fails_in_production_witness:
  "NODE_ENV production_env_without_key = Some ''production''
   \<and> \<not> truthy (BREVO_API_KEY production_env_without_key)
   \<and> sendBrevoEmail production_env_without_key (fetch_impl (example_platform 1000))
        \<lparr>sender = \<lparr>contact_name = Some ''Portfolio Contact'', contact_email = ''site@example.org''\<rparr>,
         to = [\<lparr>contact_name = Some ''Portfolio Owner'', contact_email = ''site@example.org''\<rparr>],
         replyTo = Some \<lparr>contact_name = Some ''Jo'', contact_email = ''a@b.com''\<rparr>,
         subject = ''[Portfolio] Hi there'', htmlContent = ''<p>hello</p>'',
         textContent = ''hello''\<rparr> =
       (Inl (Error ''BREVO_API_KEY is not defined in environment variables''), [])
   \<and> sendContactEmail production_env_without_key (render_email (example_platform 1000))
        (fetch_impl (example_platform 1000)) example_params =
       (Inl (Error ''BREVO_API_KEY is not defined in environment variables''), [])
   \<and> \<not> truthy (BREVO_SENDER_EMAIL (production_env_without_key\<lparr>BREVO_SENDER_EMAIL := None\<rparr>))
   \<and> sendContactEmail (production_env_without_key\<lparr>BREVO_SENDER_EMAIL := None\<rparr>)
        (render_email (example_platform 1000)) (fetch_impl (example_platform 1000))
        example_params =
       (Inl (Error ''BREVO_SENDER_EMAIL is not defined in environment variables''), [])
   \<and> NODE_ENV development_env_without_key \<noteq> Some ''production''
   \<and> sendContactEmail development_env_without_key (render_email (example_platform 1000))
        (fetch_impl (example_platform 1000)) example_params = (Inr ''dev-console'', [])"
proof -
  have p: "NODE_ENV production_env_without_key = Some ''production''"
    and k: "\<not> truthy (BREVO_API_KEY production_env_without_key)"
    by (simp_all add: production_env_without_key_def truthy_def)
  have p': "NODE_ENV (production_env_without_key\<lparr>BREVO_SENDER_EMAIL := None\<rparr>) = Some ''production''"
    and s': "\<not> truthy (BREVO_SENDER_EMAIL (production_env_without_key\<lparr>BREVO_SENDER_EMAIL := None\<rparr>))"
    by (simp_all add: production_env_without_key_def truthy_def)
  have d: "NODE_ENV development_env_without_key \<noteq> Some ''production''"
    by (simp add: development_env_without_key_def)
  have render: "render_email (example_platform 1000) example_params =
      Inr (''<p>'' @ replicate 20 CHR ''x'' @ ''</p>'', replicate 20 CHR ''x'')"
    by (simp add: example_platform_def example_params_def)
  have sender: "truthy (BREVO_SENDER_EMAIL production_env_without_key)"
    by (simp add: production_env_without_key_def truthy_def)
  note main = missing_api_key_fails_in_production
  from main [where e = production_env_without_key, THEN conjunct1] k
  have a: "sendBrevoEmail production_env_without_key (fetch_impl (example_platform 1000))
        \<lparr>sender = \<lparr>contact_name = Some ''Portfolio Contact'', contact_email = ''site@example.org''\<rparr>,
         to = [\<lparr>contact_name = Some ''Portfolio Owner'', contact_email = ''site@example.org''\<rparr>],
         replyTo = Some \<lparr>contact_name = Some ''Jo'', contact_email = ''a@b.com''\<rparr>,
         subject = ''[Portfolio] Hi there'', htmlContent = ''<p>hello</p>'',
         textContent = ''hello''\<rparr> =
       (Inl (Error ''BREVO_API_KEY is not defined in environment variables''), [])"
    by simp
  from main [where e = production_env_without_key
      and render = "render_email (example_platform 1000)"
      and fetch = "fetch_impl (example_platform 1000)" and params = example_params,
      THEN conjunct2, THEN conjunct1] p k
  obtain err where e: "sendContactEmail production_env_without_key
        (render_email (example_platform 1000)) (fetch_impl (example_platform 1000))
        example_params = (Inl err, [])"
    and "err = Error ''BREVO_SENDER_EMAIL is not defined in environment variables''
         \<or> err = Error ''BREVO_API_KEY is not defined in environment variables''
         \<or> render_email (example_platform 1000) example_params = Inl err"
    by blast
  moreover have "err \<noteq> Error ''BREVO_SENDER_EMAIL is not defined in environment variables''"
    using e by (auto simp: sendContactEmail_def sendBrevoEmail_def Let_def or_else_def truthy_def
        production_env_without_key_def render split: if_splits)
  ultimately have b: "sendContactEmail production_env_without_key
        (render_email (example_platform 1000)) (fetch_impl (example_platform 1000))
        example_params =
       (Inl (Error ''BREVO_API_KEY is not defined in environment variables''), [])"
    by (auto simp: render)
  from main [where e = "production_env_without_key\<lparr>BREVO_SENDER_EMAIL := None\<rparr>"
      and render = "render_email (example_platform 1000)"
      and fetch = "fetch_impl (example_platform 1000)" and params = example_params,
      THEN conjunct2, THEN conjunct2, THEN conjunct1] p' s'
  have c: "sendContactEmail (production_env_without_key\<lparr>BREVO_SENDER_EMAIL := None\<rparr>)
        (render_email (example_platform 1000)) (fetch_impl (example_platform 1000))
        example_params =
       (Inl (Error ''BREVO_SENDER_EMAIL is not defined in environment variables''), [])"
    by simp
  from main [where e = development_env_without_key
      and render = "render_email (example_platform 1000)"
      and fetch = "fetch_impl (example_platform 1000)" and params = example_params,
      THEN conjunct2, THEN conjunct2, THEN conjunct2] d
  have f: "sendContactEmail development_env_without_key (render_email (example_platform 1000))
        (fetch_impl (example_platform 1000)) example_params = (Inr ''dev-console'', [])"
    by simp
  from p k a b s' c d f show ?thesis by simp
qed

text \<open>
  The claim as it was stated, for every send, fails outside production: without the key
  the call succeeds.
\<close>

theorem missing_api_key_development_counterexample:
  "BREVO_API_KEY development_env_without_key = None
   \<and> sendContactEmail development_env_without_key (render_email (example_platform 1000))
        (fetch_impl (example_platform 1000)) example_params = (Inr ''dev-console'', [])"
  by (simp add: sendContactEmail_def development_env_without_key_def)

end
